theory Spec2Isabelle
  imports Main "HOL-Library.Sublist" "HOL-Library.AList"
begin

section \<open>Go library functions used by cbandwidth.go\<close>

text \<open>
  Go strings are byte sequences; they are modelled as \<open>string\<close> (a list of \<open>char\<close>, one
  per byte). An \<open>error\<close> value is modelled by its message, and a possibly-nil error by
  \<open>error option\<close> (\<open>None\<close> is \<open>nil\<close>).
\<close>

type_synonym error = string

text \<open>\<open>strings.Contains(s, substr)\<close>: \<open>substr\<close> occurs in \<open>s\<close> as a contiguous run.\<close>

fun Contains :: "string \<Rightarrow> string \<Rightarrow> bool" where
  "Contains [] substr = (substr = [])"
| "Contains (c # s) substr = (prefix substr (c # s) \<or> Contains s substr)"

text \<open>
  \<open>strings.Split(s, sep)\<close> for a one-byte separator: the pieces of \<open>s\<close> between the
  occurrences of the separator. The result is never empty: a string without the
  separator (the empty string too) gives one piece.
\<close>

fun Split :: "string \<Rightarrow> char \<Rightarrow> string list" where
  "Split [] sep = [[]]"
| "Split (c # s) sep =
     (if c = sep then [] # Split s sep
      else (case Split s sep of [] \<Rightarrow> [[c]] | t # ts \<Rightarrow> (c # t) # ts))"

text \<open>
  The verb \<open>%d\<close> of package fmt on an integer: decimal digits, with a minus sign for a
  negative value.
\<close>

fun digits :: "nat \<Rightarrow> string" where
  "digits n =
     (if n < 10 then [''0123456789'' ! n]
      else digits (n div 10) @ [''0123456789'' ! (n mod 10)])"

declare digits.simps [simp del]

definition itoa :: "int \<Rightarrow> string" where
  "itoa i = (if i < 0 then CHR ''-'' # digits (nat (- i)) else digits (nat i))"

text \<open>
  Go's \<open>int\<close> on a 64-bit target: the value of an arithmetic result is its two's
  complement wrap to 64 bits.
\<close>

definition wrap64 :: "int \<Rightarrow> int" where
  "wrap64 i = (i + 2 ^ 63) mod 2 ^ 64 - 2 ^ 63"

definition isDigit :: "char \<Rightarrow> bool" where
  "isDigit c = (c \<in> set ''0123456789'')"

definition digitVal :: "char \<Rightarrow> nat" where
  "digitVal c = of_char c - 48"

text \<open>The value of a run of decimal digits, most significant first.\<close>

definition decimal :: "string \<Rightarrow> nat" where
  "decimal ds = foldl (\<lambda>v c. 10 * v + digitVal c) 0 ds"

section \<open>The endpoint registry\<close>

text \<open>
  \<open>type servers map[string]string\<close>. A Go map is modelled as an association list with
  distinct keys: the entries in the order in which a \<open>range\<close> statement yields them
  (Go leaves that order open for a map of several entries; a map built by
  \<open>mapPerfDest\<close> has at most one). \<open>m[k] = v\<close> is \<open>AList.update k v m\<close>.
\<close>

type_synonym servers = "(string \<times> string) list"

text \<open>
  Modelled from the spec: \<open>splitPerfPair\<close>, which \<open>mapPerfDest\<close> calls, is not in
  cbandwidth.go. The spec's parsing rule: "split each raw entry on \<open>:\<close>; first token
  is \<open>address\<close>, second (if present) is \<open>label\<close>; more than two tokens is not a
  defined case and must be rejected as a configuration error at build time, not
  silently truncated. Empty \<open>address\<close> is rejected." A rejected entry gives no
  tokens: of the results the call can have, that is the one \<open>mapPerfDest\<close> (lines
  618-623) turns into a map without an entry.
\<close>

definition splitPerfPair :: "string \<Rightarrow> string list" where
  "splitPerfPair hostAddressPair =
     (case Split hostAddressPair CHR '':'' of
        [] \<Rightarrow> []
      | address # labels \<Rightarrow>
          if address = [] then []
          else if length labels > 1 then []
          else address # labels)"

text \<open>
  \<open>mapPerfDest\<close> (lines 609-624): the first token is the key, the second (if there is
  one) the value, and the empty string is the value otherwise.
\<close>

definition mapPerfDest :: "string \<Rightarrow> servers" where
  "mapPerfDest tunnelDestPair =
     (let tunnelDestMap = [];
          hostAddressPair = splitPerfPair tunnelDestPair
      in if length hostAddressPair > 1
         then AList.update (hostAddressPair ! 0) (hostAddressPair ! 1) tunnelDestMap
         else if length hostAddressPair > 0
         then AList.update (hostAddressPair ! 0) [] tunnelDestMap
         else tunnelDestMap)"

text \<open>
  The merge of the command line's server list into the configuration (\<open>runApp\<close>,
  lines 307-313): one map per comma-separated entry, appended in order.
\<close>

definition addPerfServers :: "string \<Rightarrow> servers list \<Rightarrow> servers list" where
  "addPerfServers perfServers configured =
     (if perfServers \<noteq> [] then configured @ map mapPerfDest (Split perfServers CHR '','')
      else configured)"

text \<open>
  The label a sweep uses for an entry (lines 361-363 and 477-479): an empty name is
  replaced by the address.
\<close>

definition endpointLabel :: "string \<Rightarrow> string \<Rightarrow> string" where
  "endpointLabel endpointAddress endpointName =
     (if endpointName = [] then endpointAddress else endpointName)"

text \<open>
  The endpoints of a registry: the (address, label) pairs the two nested \<open>range\<close>
  loops of a sweep work with, in the order of the loops.
\<close>

definition endpoints :: "servers list \<Rightarrow> (string \<times> string) list" where
  "endpoints perfServers =
     concat (map (map (\<lambda>(endpointAddress, endpointName).
       (endpointAddress, endpointLabel endpointAddress endpointName))) perfServers)"

section \<open>Configuration and command-line flags\<close>

text \<open>\<open>type configuration struct\<close> (lines 20-34).\<close>

record configuration =
  TestLength :: string
  TestInterval :: string
  ServerPort :: string
  TsdbServer :: string
  TsdbPort :: string
  InfluxURL :: string
  TsdbDownPrefix :: string
  TsdbUpPrefix :: string
  PerfServers :: "servers list"
  MeasurementName :: string
  GraphiteHostPort :: string
  TsdbHostPort :: string
  Hostname :: string

text \<open>
  \<open>type flags struct\<close> (lines 57-76). The program keeps one value of it in the global
  \<open>cliFlags\<close>; the model passes it to every function that reads it.
\<close>

record flags =
  configPath :: string
  imageRepo :: string
  perfServers :: string
  tsdbType :: string
  grafanaServer :: string
  grafanaPort :: string
  influxURL :: string
  testInterval :: string
  testLength :: string
  parallelConn :: string
  perfServerPort :: string
  downloadPrefix :: string
  uploadPrefix :: string
  kentikEmail :: string
  kentikToken :: string
  netperf :: bool
  noContainer :: bool
  debug :: bool

section \<open>Unit normalisation\<close>

text \<open>
  Modelled from the spec: \<open>convertKbitsToBits\<close>, which both measurement loops call, is
  not in cbandwidth.go. The spec: "the extracted token is parsed as an integer; a
  non-numeric token yields a format error" and "\<open>bitsPerSecond = kilobitsPerSecond *
  1000\<close>, integer arithmetic". The token is read as an optional sign and decimal digits
  that fit Go's 64-bit \<open>int\<close>; the product is taken in that type. With an error the
  integer result is \<open>0\<close>, Go's zero value.
\<close>

definition parseInt :: "string \<Rightarrow> int option" where
  "parseInt s =
     (let (neg, ds) =
        (case s of
           [] \<Rightarrow> (False, s)
         | c # r \<Rightarrow> if c = CHR ''-'' then (True, r)
                    else if c = CHR ''+'' then (False, r) else (False, s))
      in if ds = [] then None
         else if list_all isDigit ds
         then Some (if neg then - int (decimal ds) else int (decimal ds))
         else None)"

definition convertKbitsToBits :: "string \<Rightarrow> int \<times> error option" where
  "convertKbitsToBits kbits =
     (case parseInt kbits of
        None \<Rightarrow> (0, Some ''invalid syntax'')
      | Some k \<Rightarrow>
          if k < - (2 ^ 63) then (0, Some ''value out of range'')
          else if 2 ^ 63 \<le> k then (0, Some ''value out of range'')
          else (wrap64 (k * 1000), None))"

section \<open>What a run does and what it is told\<close>

text \<open>
  The effects of the program are recorded as a list of events, in the order in which
  they happen. A log call records its level, its format string (empty for a call
  that takes none) and its operands.
\<close>

datatype level = Debug | Info | Warn | Error

datatype arg =
    ArgS string \<comment> \<open>a string operand\<close>
  | ArgD int \<comment> \<open>an integer operand\<close>
  | ArgErr "error option" \<comment> \<open>an error operand (\<open>None\<close>: nil)\<close>
  | ArgBody \<comment> \<open>the response's body reader\<close>

datatype event =
    Log level string "arg list"
  | RunCmd string \<comment> \<open>\<open>runCmd(command)\<close>: \<open>/bin/bash -c command\<close>\<close>
  | Dial string string \<comment> \<open>\<open>net.Dial(connType, socket)\<close>\<close>
  | Fprintf string \<comment> \<open>\<open>fmt.Fprintf(conn, msg)\<close>: \<open>msg\<close> is the format, with no operands\<close>
  | ConnClose
  | HttpPost string string "(string \<times> string) list"
      \<comment> \<open>\<open>client.Do\<close> of a POST: URL, body, headers\<close>
  | ReadAll \<comment> \<open>\<open>io.ReadAll(resp.Body)\<close>: reads the body to its end (or to a read error)\<close>
  | BodyClose
  | Sleep int \<comment> \<open>\<open>time.Sleep(t)\<close>, \<open>t\<close> in nanoseconds\<close>

text \<open>
  A function either returns or panics; a panic that nothing recovers ends the process.
  No function of cbandwidth.go recovers.
\<close>

datatype 'a outcome = Returns 'a | Panics string

text \<open>An HTTP response as \<open>sendInflux\<close> reads it.\<close>

record response =
  StatusCode :: int
  Status :: string
  Body :: string \<comment> \<open>the bytes \<open>io.ReadAll\<close> returns\<close>
  ReadErr :: "error option" \<comment> \<open>the error \<open>io.ReadAll\<close> returns\<close>

text \<open>
  What the outside world answers during one measurement (one probe and the one send
  that follows it): the results of \<open>runCmd\<close>, of \<open>time.Now().Unix()\<close>, of
  \<open>net.Dial\<close> and of the write to the connection, of \<open>http.NewRequest\<close> and of
  \<open>client.Do\<close> (a nil response is \<open>None\<close>).
\<close>

record answers =
  cmdOutput :: string
  cmdErr :: "error option"
  unixNow :: int
  dialErr :: "error option"
  writeErr :: "error option"
  newRequestErr :: "error option"
  doResp :: "response option"
  doErr :: "error option"

section \<open>The sink dispatchers\<close>

text \<open>
  \<open>sendGraphite\<close> (lines 541-556). It has no result and no path that panics: the model
  returns the events. The deferred \<open>conn.Close()\<close> runs when the function returns.
\<close>

definition sendGraphite :: "flags \<Rightarrow> answers \<Rightarrow> string \<Rightarrow> string \<Rightarrow> string \<Rightarrow> event list" where
  "sendGraphite fl w connType socket msg =
     (if debug fl then [Log Info ''Sending the following msg to the tsdb: %s'' [ArgS msg]]
      else []) @
     [Dial connType socket] @
     (case dialErr w of
        Some err \<Rightarrow>
          [Log Error ''Could not connect to the graphite server -> [%s]'' [ArgS socket],
           Log Error ''Verify the graphite server is running and reachable at %s'' [ArgS socket]]
      | None \<Rightarrow>
          [Fprintf msg] @
          (case writeErr w of
             Some err \<Rightarrow>
               [Log Error ''Error writing to the graphite server at -> [%s]'' [ArgS socket]]
           | None \<Rightarrow> []) @
          [ConnClose])"

text \<open>
  \<open>sendInflux\<close> (lines 559-587). After a failed \<open>client.Do\<close> the function logs and goes
  on; \<open>defer resp.Body.Close()\<close> then reads the field \<open>Body\<close> of \<open>resp\<close>, which
  panics when \<open>resp\<close> is nil. The named result \<open>err\<close> is assigned by each \<open>:=\<close>, so the
  last plain \<open>return\<close> returns the error of \<open>io.ReadAll\<close>.
\<close>

definition nilDereference :: string where
  "nilDereference = ''runtime error: invalid memory address or nil pointer dereference''"

definition sendInflux :: "flags \<Rightarrow> answers \<Rightarrow> string \<Rightarrow> string \<Rightarrow> event list \<times> error option outcome" where
  "sendInflux fl w url msg =
     (case newRequestErr w of
        Some err \<Rightarrow>
          ([Log Error ''Error constructing URI : %s %s'' [ArgS url, ArgS msg]],
           Returns (Some err))
      | None \<Rightarrow>
          (let sent =
                 [HttpPost url msg
                    [(''Content-Type'', ''application/influx''),
                     (''X-CH-Auth-Email'', kentikEmail fl),
                     (''X-CH-Auth-API-Token'', kentikToken fl)]] @
                 (case doErr w of
                    Some err \<Rightarrow>
                      [Log Error ''Could not connect to the Influx endpoint -> [%s]'' [ArgS url],
                       Log Error ''Verify the Influx server is running and reachable at %s''
                         [ArgS url]]
                  | None \<Rightarrow> [])
           in case doResp w of
                None \<Rightarrow> (sent, Panics nilDereference)
              | Some resp \<Rightarrow>
                  (let readEvs =
                         sent @
                         [ReadAll,
                          Log Info ''StatusCode: %d'' [ArgD (StatusCode resp)],
                          Log Info ''Status: %s'' [ArgS (Status resp)],
                          Log Info ''Body: %s'' [ArgBody]]
                   in if StatusCode resp \<noteq> 200
                      then (readEvs @ [BodyClose],
                            Returns (Some (''unexpected status code: '' @ itoa (StatusCode resp))))
                      else (readEvs @ [Log Debug [] [ArgS (Body resp)], BodyClose],
                            Returns (ReadErr resp)))))"

section \<open>One measurement\<close>

datatype direction = Download | Upload

text \<open>
  The shell command of an iperf probe (lines 365-371 and 404-410). The two formats
  differ in the flag \<open>-R\<close> of the upload test only.
\<close>

definition iperfCommand :: "string \<Rightarrow> flags \<Rightarrow> direction \<Rightarrow> string \<Rightarrow> string" where
  "iperfCommand iperfBinary fl dir endpointAddress =
     iperfBinary @ '' -P '' @ parallelConn fl @
     (case dir of Download \<Rightarrow> '' -t '' | Upload \<Rightarrow> '' -R -t '') @ testLength fl @
     '' -f k -p '' @ perfServerPort fl @ '' -c '' @ endpointAddress @
     '' | tail -n 3 | head -n1 | awk '{print $7}'' @ [CHR 0x27]"

text \<open>The shell command of a netperf probe (lines 481-487); \<open>netperfTCP\<close> is line 39.\<close>

definition netperfTCP :: string where
  "netperfTCP = ''TCP_STREAM''"

definition netperfCommand :: "string \<Rightarrow> flags \<Rightarrow> string \<Rightarrow> string" where
  "netperfCommand netperfBinary fl endpointAddress =
     netperfBinary @ '' -P 0 -t '' @ netperfTCP @ '' -f k -l '' @ testLength fl @
     '' -p '' @ perfServerPort fl @ '' -H '' @ endpointAddress @
     '' | awk '{print $5}'' @ [CHR 0x27]"

text \<open>
  The two payloads, as the calls of \<open>fmt.Sprintf\<close> build them: the verb \<open>%s\<close> puts the
  string operand, the verb \<open>%d\<close> the decimal digits of the integer operand, and the
  rest of the format is copied. \<open>graphiteMsg\<close> is the format \<open>"%s.%s %d %d\n"\<close> of
  lines 388, 427 and 502; \<open>influxMsg\<close> is the format
  \<open>"%s,testType=%s,iperfDestination=%s,iperfSource=%s <field>=%d"\<close> of lines 391, 430
  and 505, where the field is written in the format itself.
\<close>

definition graphiteMsg :: "string \<Rightarrow> string \<Rightarrow> int \<Rightarrow> int \<Rightarrow> string" where
  "graphiteMsg pfx endpointName resultsBps timeNow =
     pfx @ ''.'' @ endpointName @ '' '' @ itoa resultsBps @ '' '' @ itoa timeNow @ [CHR 0x0A]"

definition influxMsg :: "string \<Rightarrow> configuration \<Rightarrow> string \<Rightarrow> string \<Rightarrow> int \<Rightarrow> string" where
  "influxMsg field config pfx endpointName resultsBps =
     MeasurementName config @ '',testType='' @ pfx @ '',iperfDestination='' @ endpointName @
     '',iperfSource='' @ Hostname config @ '' '' @ field @ ''='' @ itoa resultsBps"

text \<open>
  The write of a result to the time series database (lines 387-400, 426-438 and
  501-514): to Graphite unless the flag \<open>tsdbtype\<close> is \<open>influx\<close>. The result of
  \<open>sendInflux\<close> is dropped by the caller; its panic is not.
\<close>

definition writeResult ::
  "string \<Rightarrow> configuration \<Rightarrow> flags \<Rightarrow> answers \<Rightarrow> string \<Rightarrow> string \<Rightarrow> int \<Rightarrow> event list \<times> unit outcome"
where
  "writeResult field config fl w pfx endpointName resultsBps =
     (let timeNow = unixNow w
      in if tsdbType fl \<noteq> ''influx''
         then (sendGraphite fl w ''tcp'' (GraphiteHostPort config)
                 (graphiteMsg pfx endpointName resultsBps timeNow), Returns ())
         else (let msg = influxMsg field config pfx endpointName resultsBps;
                   (sent, r) = sendInflux fl w (InfluxURL config) msg
               in (Log Error ''url: %s : payload: %s'' [ArgS (InfluxURL config), ArgS msg] # sent,
                   case r of Returns e \<Rightarrow> Returns () | Panics p \<Rightarrow> Panics p)))"

text \<open>
  One iperf test of \<open>iperfRun\<close>: lines 364-401 for the download, lines 403-439 for the
  upload. The two blocks of the source are the same text up to the flag \<open>-R\<close>, the
  word in the log line and the prefix, which \<open>direction\<close> selects here.
\<close>

definition iperfTest ::
  "configuration \<Rightarrow> flags \<Rightarrow> string \<Rightarrow> direction \<Rightarrow> string \<Rightarrow> string \<Rightarrow> answers \<Rightarrow> event list \<times> unit outcome"
where
  "iperfTest config fl iperfBinary dir endpointAddress endpointName w =
     (let iperfResults = cmdOutput w;
          err = cmdErr w;
          ran = [RunCmd (iperfCommand iperfBinary fl dir endpointAddress)]
      in if Contains iperfResults ''error''
         then (ran @
               [Log Error ''Error testing to the target server at %s:%s''
                  [ArgS endpointAddress, ArgS (perfServerPort fl)],
                Log Error ''Verify iperf is running and reachable at %s:%s''
                  [ArgS endpointAddress, ArgS (perfServerPort fl)],
                Log Error [] [ArgErr err, ArgS iperfResults]],
               Returns ())
         else (let (iperfResultsBbps, err) = convertKbitsToBits iperfResults;
                   checked =
                     (if err \<noteq> None
                      then [Log Error
                        ''no valid integer returned from the iperf test, please run with --debug for details'' []]
                      else []);
                   info =
                     [Log Info
                        ((case dir of Download \<Rightarrow> ''Download'' | Upload \<Rightarrow> ''Upload'') @
                         '' results for endpoint %s [%s] -> %d bps'')
                        [ArgS endpointAddress, ArgS endpointName, ArgD iperfResultsBbps]];
                   (sent, r) =
                     writeResult ''iperfResultsBps'' config fl w
                       (case dir of Download \<Rightarrow> downloadPrefix fl | Upload \<Rightarrow> uploadPrefix fl)
                       endpointName iperfResultsBbps
               in (ran @ checked @ info @ sent, r)))"

text \<open>One netperf test of \<open>netperfRun\<close> (lines 480-515): a download only.\<close>

definition netperfTest ::
  "configuration \<Rightarrow> flags \<Rightarrow> string \<Rightarrow> string \<Rightarrow> string \<Rightarrow> answers \<Rightarrow> event list \<times> unit outcome"
where
  "netperfTest config fl netperfBinary endpointAddress endpointName w =
     (let iperfDownResults = cmdOutput w;
          ran = [RunCmd (netperfCommand netperfBinary fl endpointAddress)]
      in if Contains iperfDownResults ''sure''
         then (ran @
               [Log Error ''Error testing to the target server at %s:%s''
                  [ArgS endpointAddress, ArgS (perfServerPort fl)],
                Log Error ''Verify netserver is running and reachable at %s:%s''
                  [ArgS endpointAddress, ArgS (perfServerPort fl)]],
               Returns ())
         else (let (iperfDownResultsBbps, err) = convertKbitsToBits iperfDownResults;
                   checked =
                     (if err \<noteq> None
                      then [Log Error
                        ''no valid integer returned from the netperf test, please run with --debug for details: %v''
                        [ArgErr err]]
                      else []);
                   info =
                     [Log Info ''Download results for endpoint %s [%s] -> %d bps''
                        [ArgS endpointAddress, ArgS endpointName, ArgD iperfDownResultsBbps]];
                   (sent, r) =
                     writeResult ''iperfDownloadResultsBps'' config fl w (downloadPrefix fl)
                       endpointName iperfDownResultsBbps
               in (ran @ checked @ info @ sent, r)))"

section \<open>The polling interval\<close>

text \<open>
  \<open>time.ParseDuration\<close> of Go's standard library, which both loops call on the interval
  with \<open>"s"\<close> appended. A duration string is an optional sign and then one or more
  groups of decimal digits, an optional fraction and a unit; the value is in
  nanoseconds. The function computes in \<open>uint64\<close> and gives up past \<open>1 << 63\<close>. On
  every error it returns the duration \<open>0\<close> with the error.

  The one step the library takes in floating point, the nanoseconds of a non-zero
  fraction (\<open>uint64(float64(f) * (float64(unit) / scale))\<close>), is a parameter \<open>fm\<close> of
  the model, applied to \<open>f\<close>, the unit and the number of digits of the scale. A string
  without a non-zero fraction never reaches it.
\<close>

type_synonym fraction = "nat \<Rightarrow> nat \<Rightarrow> nat \<Rightarrow> nat"

definition unitMap :: "string \<Rightarrow> nat option" where
  "unitMap = map_of
     [(''ns'', 1),
      (''us'', 1000),
      ([CHR 0xC2, CHR 0xB5, CHR ''s''], 1000),
      ([CHR 0xCE, CHR 0xBC, CHR ''s''], 1000),
      (''ms'', 1000000),
      (''s'', 1000000000),
      (''m'', 60000000000),
      (''h'', 3600000000000)]"

text \<open>\<open>leadingInt\<close>: the leading digits as a number and the rest; \<open>None\<close> on overflow.\<close>

fun leadingInt :: "nat \<Rightarrow> string \<Rightarrow> (nat \<times> string) option" where
  "leadingInt x [] = Some (x, [])"
| "leadingInt x (c # s) =
     (if isDigit c
      then if x > 2 ^ 63 div 10 then None
           else (let x' = x * 10 + digitVal c
                 in if x' > 2 ^ 63 then None else leadingInt x' s)
      else Some (x, c # s))"

text \<open>
  \<open>leadingFraction\<close>: the leading digits as a number, the count of the digits taken
  (the scale is ten to that power) and the rest. Digits after an overflow are
  skipped.
\<close>

fun leadingFraction :: "nat \<Rightarrow> nat \<Rightarrow> bool \<Rightarrow> string \<Rightarrow> nat \<times> nat \<times> string" where
  "leadingFraction x k overflow [] = (x, k, [])"
| "leadingFraction x k overflow (c # s) =
     (if isDigit c
      then if overflow then leadingFraction x k True s
           else if x > (2 ^ 63 - 1) div 10 then leadingFraction x k True s
           else (let y = x * 10 + digitVal c
                 in if y > 2 ^ 63 then leadingFraction x k True s
                    else leadingFraction y (Suc k) False s)
      else (x, k, c # s))"

definition invalidDuration :: error where
  "invalidDuration = ''time: invalid duration''"

text \<open>
  One pass of the loop of \<open>ParseDuration\<close>: a group at the head of a non-empty string,
  its nanoseconds and the rest of the string.
\<close>

definition notUnitEnd :: "char \<Rightarrow> bool" where
  "notUnitEnd c = (\<not> (c = CHR ''.'' \<or> isDigit c))"

definition durationGroup :: "fraction \<Rightarrow> string \<Rightarrow> error + (nat \<times> string)" where
  "durationGroup fm s =
     (case s of
        [] \<Rightarrow> Inl invalidDuration
      | c # rest \<Rightarrow>
          if notUnitEnd c then Inl invalidDuration
          else case leadingInt 0 s of
            None \<Rightarrow> Inl invalidDuration
          | Some (v, s1) \<Rightarrow>
              (let pre = (length s \<noteq> length s1);
                   (f, k, post, s2) =
                     (case s1 of
                        [] \<Rightarrow> (0, 0, False, s1)
                      | c1 # t \<Rightarrow>
                          if c1 = CHR ''.''
                          then (let (f, k, s2) = leadingFraction 0 0 False t
                                in (f, k, length t \<noteq> length s2, s2))
                          else (0, 0, False, s1))
               in if \<not> pre \<and> \<not> post then Inl invalidDuration
                  else (let u = takeWhile notUnitEnd s2;
                            s3 = dropWhile notUnitEnd s2
                        in if u = [] then Inl ''time: missing unit in duration''
                           else case unitMap u of
                             None \<Rightarrow> Inl ''time: unknown unit in duration''
                           | Some unit \<Rightarrow>
                               if v > 2 ^ 63 div unit then Inl invalidDuration
                               else (let v1 = v * unit;
                                         v2 = (if f > 0 then (v1 + fm f unit k) mod 2 ^ 64 else v1)
                                     in if f > 0 \<and> v2 > 2 ^ 63 then Inl invalidDuration
                                        else Inr (v2, s3)))))"

lemma leadingInt_length: "leadingInt x s = Some (v, r) \<Longrightarrow> length r \<le> length s"
proof (induction x s rule: leadingInt.induct)
  case (1 x)
  then show ?case by simp
next
  case (2 x c s)
  then show ?case
    by (auto simp: Let_def split: if_splits)
qed

lemma leadingFraction_length: "leadingFraction x k ov s = (f, n, r) \<Longrightarrow> length r \<le> length s"
proof (induction x k ov s rule: leadingFraction.induct)
  case (1 x k overflow)
  then show ?case by simp
next
  case (2 x k overflow c s)
  then show ?case
    by (auto simp: Let_def split: if_splits)
qed

lemma dropWhile_shorter: "takeWhile P xs \<noteq> [] \<Longrightarrow> length (dropWhile P xs) < length xs"
  by (cases xs) (auto simp: le_imp_less_Suc length_dropWhile_le split: if_splits)

lemma durationGroup_length:
  assumes "durationGroup fm s = Inr (v, r)"
  shows "length r < length s"
proof -
  from assms obtain c rest where s: "s = c # rest"
    by (cases s) (auto simp: durationGroup_def)
  from assms s obtain v0 s1 where li: "leadingInt 0 s = Some (v0, s1)"
    by (auto simp: durationGroup_def split: if_splits option.splits)
  then have l1: "length s1 \<le> length s" by (rule leadingInt_length)
  define q where "q = (case s1 of
                        [] \<Rightarrow> (0, 0, False, s1)
                      | c1 # t \<Rightarrow>
                          if c1 = CHR ''.''
                          then (let (f, k, s2) = leadingFraction 0 0 False t
                                in (f, k, length t \<noteq> length s2, s2))
                          else (0::nat, 0::nat, False, s1))"
  obtain f k post s2 where q: "q = (f, k, post, s2)" by (cases q) auto
  have l2: "length s2 \<le> length s1"
  proof (cases s1)
    case Nil
    with q show ?thesis by (simp add: q_def)
  next
    case (Cons c1 t)
    show ?thesis
    proof (cases "c1 = CHR ''.''")
      case True
      obtain f' k' r' where lf: "leadingFraction 0 0 False t = (f', k', r')"
        by (cases "leadingFraction 0 0 False t") auto
      from leadingFraction_length [OF lf] have "length r' \<le> length t" .
      moreover from q Cons True lf have "s2 = r'" by (simp add: q_def)
      ultimately show ?thesis using Cons by simp
    next
      case False
      with q Cons show ?thesis by (simp add: q_def)
    qed
  qed
  from assms s li q have u: "takeWhile notUnitEnd s2 \<noteq> []" and r: "r = dropWhile notUnitEnd s2"
    by (auto simp: durationGroup_def q_def [symmetric] Let_def split: if_splits option.splits)
  from dropWhile_shorter [OF u] r have "length r < length s2" by simp
  with l1 l2 show ?thesis by simp
qed

text \<open>
  The loop of \<open>ParseDuration\<close> (\<open>for s != ""\<close>): the sum \<open>d\<close> of the groups, in
  \<open>uint64\<close>.
\<close>

function durationSum :: "fraction \<Rightarrow> nat \<Rightarrow> string \<Rightarrow> error + nat" where
  "durationSum fm d s =
     (if s = [] then Inr d
      else case durationGroup fm s of
        Inl e \<Rightarrow> Inl e
      | Inr (v, r) \<Rightarrow>
          (let d' = (d + v) mod 2 ^ 64
           in if d' > 2 ^ 63 then Inl invalidDuration else durationSum fm d' r))"
  by pat_completeness auto
termination
  by (relation "measure (\<lambda>(fm, d, s). length s)") (auto dest: durationGroup_length)

declare durationSum.simps [simp del]

definition ParseDuration :: "fraction \<Rightarrow> string \<Rightarrow> int \<times> error option" where
  "ParseDuration fm s =
     (let (neg, s1) =
        (case s of
           [] \<Rightarrow> (False, s)
         | c # r \<Rightarrow> if c = CHR ''-'' then (True, r)
                    else if c = CHR ''+'' then (False, r) else (False, s))
      in if s1 = ''0'' then (0, None)
         else if s1 = [] then (0, Some invalidDuration)
         else case durationSum fm 0 s1 of
           Inl e \<Rightarrow> (0, Some e)
         | Inr d \<Rightarrow>
             if neg then (- int d, None)
             else if d > 2 ^ 63 - 1 then (0, Some invalidDuration)
             else (int d, None))"

section \<open>Sweeps and the program loop\<close>

text \<open>
  The answers of the outside world to a run: one \<open>answers\<close> per measurement, numbered
  in the order in which the run makes them. The loops below carry the number of the
  next measurement.
\<close>

type_synonym world = "nat \<Rightarrow> answers"

text \<open>
  The inner loop of \<open>iperfRun\<close> (lines 360-440), over the entries of one map: the
  download test and then the upload test of each entry. A panic ends the loop, as it
  ends the process.
\<close>

fun iperfEntries ::
  "configuration \<Rightarrow> flags \<Rightarrow> string \<Rightarrow> world \<Rightarrow> nat \<Rightarrow> servers \<Rightarrow> event list \<times> nat outcome"
where
  "iperfEntries config fl iperfBinary env i [] = ([], Returns i)"
| "iperfEntries config fl iperfBinary env i ((endpointAddress, name) # rest) =
     (let endpointName = endpointLabel endpointAddress name
      in case iperfTest config fl iperfBinary Download endpointAddress endpointName (env i) of
           (down, Panics p) \<Rightarrow> (down, Panics p)
         | (down, Returns u) \<Rightarrow>
             (case iperfTest config fl iperfBinary Upload endpointAddress endpointName
                     (env (i + 1)) of
                (up, Panics p) \<Rightarrow> (down @ up, Panics p)
              | (up, Returns u') \<Rightarrow>
                  (case iperfEntries config fl iperfBinary env (i + 2) rest of
                     (later, r) \<Rightarrow> (down @ up @ later, r))))"

text \<open>The outer loop of \<open>iperfRun\<close> (line 359), over \<open>config.PerfServers\<close>.\<close>

fun iperfServers ::
  "configuration \<Rightarrow> flags \<Rightarrow> string \<Rightarrow> world \<Rightarrow> nat \<Rightarrow> servers list \<Rightarrow> event list \<times> nat outcome"
where
  "iperfServers config fl iperfBinary env i [] = ([], Returns i)"
| "iperfServers config fl iperfBinary env i (v # vs) =
     (case iperfEntries config fl iperfBinary env i v of
        (first, Panics p) \<Rightarrow> (first, Panics p)
      | (first, Returns j) \<Rightarrow>
          (case iperfServers config fl iperfBinary env j vs of
             (later, r) \<Rightarrow> (first @ later, r)))"

text \<open>
  The polling interval (lines 443 and 520): \<open>t, _ := time.ParseDuration(
  string(cliFlags.testInterval) + "s")\<close>. The error is dropped.
\<close>

definition pollInterval :: "fraction \<Rightarrow> flags \<Rightarrow> int" where
  "pollInterval fm fl = fst (ParseDuration fm (testInterval fl @ ''s''))"

text \<open>One pass of the program loop of \<open>iperfRun\<close> (lines 358-445): a sweep, then the sleep.\<close>

definition iperfSweep ::
  "fraction \<Rightarrow> configuration \<Rightarrow> flags \<Rightarrow> string \<Rightarrow> world \<Rightarrow> nat \<Rightarrow> event list \<times> nat outcome"
where
  "iperfSweep fm config fl iperfBinary env i =
     (case iperfServers config fl iperfBinary env i (PerfServers config) of
        (evs, Panics p) \<Rightarrow> (evs, Panics p)
      | (evs, Returns j) \<Rightarrow> (evs @ [Sleep (pollInterval fm fl)], Returns j))"

text \<open>
  The program loop \<open>for { ... }\<close> never ends by itself. \<open>iperfLoop n\<close> is its first
  \<open>n\<close> passes: the events up to the end of pass \<open>n\<close>, or up to a panic before it.
\<close>

fun iperfLoop ::
  "nat \<Rightarrow> fraction \<Rightarrow> configuration \<Rightarrow> flags \<Rightarrow> string \<Rightarrow> world \<Rightarrow> nat \<Rightarrow> event list \<times> nat outcome"
where
  "iperfLoop 0 fm config fl iperfBinary env i = ([], Returns i)"
| "iperfLoop (Suc n) fm config fl iperfBinary env i =
     (case iperfSweep fm config fl iperfBinary env i of
        (evs, Panics p) \<Rightarrow> (evs, Panics p)
      | (evs, Returns j) \<Rightarrow>
          (case iperfLoop n fm config fl iperfBinary env j of
             (later, r) \<Rightarrow> (evs @ later, r)))"

text \<open>
  \<open>iperfRun\<close> (lines 342-446), for a call of \<open>checkContainerRuntime\<close> that returns
  \<open>runtime\<close> (the call is not made with the flag \<open>nocontainer\<close>).
\<close>

definition iperfRun ::
  "nat \<Rightarrow> fraction \<Rightarrow> configuration \<Rightarrow> flags \<Rightarrow> string \<Rightarrow> world \<Rightarrow> event list \<times> nat outcome"
where
  "iperfRun n fm config fl runtime env =
     (let iperfBinary =
            (if noContainer fl then ''iperf3''
             else runtime @ '' run -i --rm '' @ imageRepo fl);
          binaryLog = Log Debug ''[Config] Perf Binary = %s'' [ArgS (perfServerPort fl)];
          fl' = (if ServerPort config \<noteq> [] then fl\<lparr>perfServerPort := ServerPort config\<rparr>
                 else fl);
          portLog = Log Debug ''[Config] Perf Server Port = %s'' [ArgS (perfServerPort fl')]
      in case iperfLoop n fm config fl' iperfBinary env 0 of
           (evs, r) \<Rightarrow> (binaryLog # portLog # evs, r))"

text \<open>The loops of \<open>netperfRun\<close> (lines 474-522): one download test per entry.\<close>

fun netperfEntries ::
  "configuration \<Rightarrow> flags \<Rightarrow> string \<Rightarrow> world \<Rightarrow> nat \<Rightarrow> servers \<Rightarrow> event list \<times> nat outcome"
where
  "netperfEntries config fl netperfBinary env i [] = ([], Returns i)"
| "netperfEntries config fl netperfBinary env i ((endpointAddress, name) # rest) =
     (let endpointName = endpointLabel endpointAddress name
      in case netperfTest config fl netperfBinary endpointAddress endpointName (env i) of
           (down, Panics p) \<Rightarrow> (down, Panics p)
         | (down, Returns u) \<Rightarrow>
             (case netperfEntries config fl netperfBinary env (i + 1) rest of
                (later, r) \<Rightarrow> (down @ later, r)))"

fun netperfServers ::
  "configuration \<Rightarrow> flags \<Rightarrow> string \<Rightarrow> world \<Rightarrow> nat \<Rightarrow> servers list \<Rightarrow> event list \<times> nat outcome"
where
  "netperfServers config fl netperfBinary env i [] = ([], Returns i)"
| "netperfServers config fl netperfBinary env i (v # vs) =
     (case netperfEntries config fl netperfBinary env i v of
        (first, Panics p) \<Rightarrow> (first, Panics p)
      | (first, Returns j) \<Rightarrow>
          (case netperfServers config fl netperfBinary env j vs of
             (later, r) \<Rightarrow> (first @ later, r)))"

definition netperfSweep ::
  "fraction \<Rightarrow> configuration \<Rightarrow> flags \<Rightarrow> string \<Rightarrow> world \<Rightarrow> nat \<Rightarrow> event list \<times> nat outcome"
where
  "netperfSweep fm config fl netperfBinary env i =
     (case netperfServers config fl netperfBinary env i (PerfServers config) of
        (evs, Panics p) \<Rightarrow> (evs, Panics p)
      | (evs, Returns j) \<Rightarrow> (evs @ [Sleep (pollInterval fm fl)], Returns j))"

text \<open>What is read off a list of events.\<close>

fun commands :: "event list \<Rightarrow> string list" where
  "commands [] = []"
| "commands (RunCmd c # evs) = c # commands evs"
| "commands (e # evs) = commands evs"

fun sleeps :: "event list \<Rightarrow> int list" where
  "sleeps [] = []"
| "sleeps (Sleep t # evs) = t # sleeps evs"
| "sleeps (e # evs) = sleeps evs"

fun isSinkEvent :: "event \<Rightarrow> bool" where
  "isSinkEvent (Dial connType socket) = True"
| "isSinkEvent (Fprintf msg) = True"
| "isSinkEvent ConnClose = True"
| "isSinkEvent (HttpPost url body headers) = True"
| "isSinkEvent ReadAll = True"
| "isSinkEvent BodyClose = True"
| "isSinkEvent e = False"

fun isErrorLog :: "event \<Rightarrow> bool" where
  "isErrorLog (Log Error fmt args) = True"
| "isErrorLog e = False"

fun payloads :: "event list \<Rightarrow> string list" where
  "payloads [] = []"
| "payloads (Fprintf msg # evs) = msg # payloads evs"
| "payloads (HttpPost url body headers # evs) = body # payloads evs"
| "payloads (e # evs) = payloads evs"

text \<open>
  What it is for an interval to be a valid number of seconds, read generously: an optional sign,
  then decimal digits with at most one decimal point among them.
\<close>

definition validSeconds :: "string \<Rightarrow> bool" where
  "validSeconds s =
     (let body =
        (case s of
           [] \<Rightarrow> s
         | c # r \<Rightarrow> if c = CHR ''-'' then r else if c = CHR ''+'' then r else s)
      in list_ex isDigit body \<and>
         list_all (\<lambda>c. isDigit c \<or> c = CHR ''.'') body \<and>
         length (filter (\<lambda>c. c = CHR ''.'') body) \<le> 1)"

section \<open>Example inputs\<close>

text \<open>
  A configuration with two registry entries (the second without a name), flags with
  the defaults of the command line, and a world in which every probe prints the same
  output and every sink accepts what it is sent at the time \<open>1700000000\<close>.
\<close>

definition exampleConfig :: configuration where
  "exampleConfig =
     \<lparr>TestLength = ''5'', TestInterval = ''300'', ServerPort = [],
      TsdbServer = ''graphite'', TsdbPort = ''2003'',
      InfluxURL = ''http://influx.example/write'',
      TsdbDownPrefix = ''bandwidth.download'', TsdbUpPrefix = ''bandwidth.upload'',
      PerfServers = [[(''10.0.0.5'', ''host1'')], [(''10.0.0.6'', [])]],
      MeasurementName = ''bandwidth'', GraphiteHostPort = ''graphite:2003'',
      TsdbHostPort = [], Hostname = ''probe1''\<rparr>"

definition exampleFlags :: "string \<Rightarrow> string \<Rightarrow> flags" where
  "exampleFlags tsdb interval =
     \<lparr>configPath = ''configuration.yaml'', imageRepo = ''quay.io/networkstatic/iperf3'',
      perfServers = [], tsdbType = tsdb, grafanaServer = [], grafanaPort = ''2003'',
      influxURL = [], testInterval = interval, testLength = ''5'', parallelConn = ''1'',
      perfServerPort = ''5201'', downloadPrefix = ''bandwidth.download'',
      uploadPrefix = ''bandwidth.upload'', kentikEmail = ''me@example.com'',
      kentikToken = ''token'', netperf = False, noContainer = True, debug = False\<rparr>"

definition exampleResponse :: "int \<Rightarrow> response" where
  "exampleResponse code = \<lparr>StatusCode = code, Status = itoa code, Body = [], ReadErr = None\<rparr>"

definition exampleAnswers :: "string \<Rightarrow> answers" where
  "exampleAnswers output =
     \<lparr>cmdOutput = output, cmdErr = None, unixNow = 1700000000, dialErr = None,
      writeErr = None, newRequestErr = None, doResp = Some (exampleResponse 200),
      doErr = None\<rparr>"

text \<open>A world in which the HTTP request cannot be delivered: no response, an error.\<close>

definition unreachableAnswers :: "string \<Rightarrow> answers" where
  "unreachableAnswers output =
     (exampleAnswers output)
       \<lparr>doResp := None, doErr := Some ''dial tcp: connect: connection refused''\<rparr>"

text \<open>A world whose first measurement is answered differently from the later ones.\<close>

definition exampleWorld :: "answers \<Rightarrow> answers \<Rightarrow> world" where
  "exampleWorld first later n = (if n = 0 then first else later)"

definition noFraction :: fraction where
  "noFraction f unit k = 0"

section \<open>Facts about the library functions\<close>

lemma Split_no_sep: "sep \<notin> set s \<Longrightarrow> Split s sep = [s]"
  by (induction s) auto


lemma Split_at_first_sep: "sep \<notin> set a \<Longrightarrow> Split (a @ sep # b) sep = a # Split b sep"
  by (induction a) auto

lemma Contains_iff: "Contains s substr \<longleftrightarrow> (\<exists>a b. s = a @ substr @ b)"
proof (induction s)
  case Nil
  then show ?case by auto
next
  case (Cons c s)
  show ?case
  proof
    assume "Contains (c # s) substr"
    then consider "prefix substr (c # s)" | "Contains s substr" by auto
    then show "\<exists>a b. c # s = a @ substr @ b"
    proof cases
      case 1
      then obtain b where "c # s = substr @ b" by (auto simp: prefix_def)
      then have "c # s = [] @ substr @ b" by simp
      then show ?thesis by blast
    next
      case 2
      with Cons.IH obtain a b where "s = a @ substr @ b" by blast
      then have "c # s = (c # a) @ substr @ b" by simp
      then show ?thesis by blast
    qed
  next
    assume "\<exists>a b. c # s = a @ substr @ b"
    then obtain a b where ab: "c # s = a @ substr @ b" by blast
    show "Contains (c # s) substr"
    proof (cases a)
      case Nil
      with ab have "prefix substr (c # s)" by (simp add: prefix_def)
      then show ?thesis by simp
    next
      case (Cons x a')
      with ab have "s = a' @ substr @ b" by simp
      with Cons.IH have "Contains s substr" by blast
      then show ?thesis by simp
    qed
  qed
qed

section \<open>The endpoint registry: what an entry resolves to\<close>

lemma mapPerfDest_tokens:
  "mapPerfDest e =
     (case splitPerfPair e of
        [] \<Rightarrow> []
      | [a] \<Rightarrow> [(a, [])]
      | a # b # others \<Rightarrow> [(a, b)])"
  by (auto simp: mapPerfDest_def split: list.splits)

lemma splitPerfPair_one: "CHR '':'' \<notin> set addr \<Longrightarrow> addr \<noteq> [] \<Longrightarrow> splitPerfPair addr = [addr]"
  by (simp add: splitPerfPair_def Split_no_sep)

lemma splitPerfPair_two:
  "CHR '':'' \<notin> set addr \<Longrightarrow> addr \<noteq> [] \<Longrightarrow> CHR '':'' \<notin> set label \<Longrightarrow>
   splitPerfPair (addr @ CHR '':'' # label) = [addr, label]"
  by (simp add: splitPerfPair_def Split_at_first_sep Split_no_sep)



lemma splitPerfPair_no_address: "splitPerfPair [] = [] \<and> splitPerfPair (CHR '':'' # label) = []"
  by (simp add: splitPerfPair_def)

text \<open>
  Claim C6, as amended. An entry without \<open>:\<close> resolves to the endpoint whose address
  and label are both the entry. An entry \<open>addr:label\<close> (neither part containing
  \<open>:\<close>) resolves to the address \<open>addr\<close> and, when \<open>label\<close> is not empty, to the label
  \<open>label\<close>; when \<open>label\<close> is empty the label is the address. Where the address is
  empty the parsing rule rejects the entry, and it resolves to no endpoint.
\<close>

theorem C6_entry_resolution:
  "(CHR '':'' \<notin> set addr \<longrightarrow>
      endpoints [mapPerfDest addr] = (if addr = [] then [] else [(addr, addr)])) \<and>
   (CHR '':'' \<notin> set addr \<and> CHR '':'' \<notin> set label \<longrightarrow>
      endpoints [mapPerfDest (addr @ '':'' @ label)] =
        (if addr = [] then [] else [(addr, if label = [] then addr else label)]))"
proof (intro conjI impI)
  assume h: "CHR '':'' \<notin> set addr"
  show "endpoints [mapPerfDest addr] = (if addr = [] then [] else [(addr, addr)])"
  proof (cases "addr = []")
    case True
    then show ?thesis
      by (simp add: mapPerfDest_tokens splitPerfPair_no_address endpoints_def)
  next
    case False
    with h have "splitPerfPair addr = [addr]" by (simp add: splitPerfPair_one)
    with False show ?thesis
      by (simp add: mapPerfDest_tokens endpoints_def endpointLabel_def)
  qed
next
  assume h: "CHR '':'' \<notin> set addr \<and> CHR '':'' \<notin> set label"
  show "endpoints [mapPerfDest (addr @ '':'' @ label)] =
      (if addr = [] then [] else [(addr, if label = [] then addr else label)])"
  proof (cases "addr = []")
    case True
    then show ?thesis
      by (simp add: mapPerfDest_tokens splitPerfPair_no_address endpoints_def)
  next
    case False
    with h have "splitPerfPair (addr @ CHR '':'' # label) = [addr, label]"
      by (simp add: splitPerfPair_two)
    with False show ?thesis
      by (simp add: mapPerfDest_tokens endpoints_def endpointLabel_def)
  qed
qed

theorem C6_entry_resolution_witness:
  "endpoints [mapPerfDest ''10.0.0.5''] = [(''10.0.0.5'', ''10.0.0.5'')] \<and>
   endpoints [mapPerfDest ''10.0.0.5:west''] = [(''10.0.0.5'', ''west'')]"
  using C6_entry_resolution [of "''10.0.0.5''" "''west''"] by simp

text \<open>
  Claim C6 as stated fails where the label part is empty: the entry \<open>10.0.0.5:\<close> does
  not resolve to the empty label but to the address as label.
\<close>

theorem C6_empty_label_counterexample:
  "endpoints [mapPerfDest (''10.0.0.5'' @ '':'' @ [])] \<noteq> [(''10.0.0.5'', [])] \<and>
   endpoints [mapPerfDest (''10.0.0.5'' @ '':'' @ [])] = [(''10.0.0.5'', ''10.0.0.5'')]"
  by (simp add: mapPerfDest_def splitPerfPair_def endpoints_def endpointLabel_def)


lemma Split_abc: "Split ''a:b:c'' CHR '':'' = [''a'', ''b'', ''c'']"
  by simp

lemma Split_x: "Split '':x'' CHR '':'' = [[], ''x'']"
  by simp


section \<open>Facts about the events of a measurement\<close>

lemma commands_append: "commands (xs @ ys) = commands xs @ commands ys"
  by (induction xs rule: commands.induct) simp_all

lemma sleeps_append: "sleeps (xs @ ys) = sleeps xs @ sleeps ys"
  by (induction xs rule: sleeps.induct) simp_all

lemma payloads_append: "payloads (xs @ ys) = payloads xs @ payloads ys"
  by (induction xs rule: payloads.induct) simp_all

lemma sendGraphite_quiet:
  "commands (sendGraphite fl w connType socket msg) = [] \<and>
   sleeps (sendGraphite fl w connType socket msg) = []"
  by (simp add: sendGraphite_def commands_append sleeps_append split: option.splits)

lemma sendInflux_quiet:
  "commands (fst (sendInflux fl w url msg)) = [] \<and> sleeps (fst (sendInflux fl w url msg)) = []"
  by (simp add: sendInflux_def Let_def commands_append sleeps_append split: option.splits)

lemma writeResult_quiet:
  "commands (fst (writeResult field config fl w pfx name bps)) = [] \<and>
   sleeps (fst (writeResult field config fl w pfx name bps)) = []"
  by (simp add: writeResult_def Let_def split_beta sendGraphite_quiet sendInflux_quiet)

lemma iperfTest_commands:
  "commands (fst (iperfTest config fl bin dir addr name w)) = [iperfCommand bin fl dir addr] \<and>
   sleeps (fst (iperfTest config fl bin dir addr name w)) = []"
  by (simp add: iperfTest_def Let_def split_beta commands_append sleeps_append writeResult_quiet)

lemma netperfTest_commands:
  "commands (fst (netperfTest config fl bin addr name w)) = [netperfCommand bin fl addr] \<and>
   sleeps (fst (netperfTest config fl bin addr name w)) = []"
  by (simp add: netperfTest_def Let_def split_beta commands_append sleeps_append
      writeResult_quiet)

lemma sendGraphite_payloads:
  "dialErr w = None \<Longrightarrow> payloads (sendGraphite fl w connType socket msg) = [msg]"
  by (simp add: sendGraphite_def payloads_append split: option.splits)

lemma sendGraphite_dials: "Dial connType socket \<in> set (sendGraphite fl w connType socket msg)"
  by (simp add: sendGraphite_def)

lemma sendInflux_payloads:
  "newRequestErr w = None \<Longrightarrow> payloads (fst (sendInflux fl w url msg)) = [msg]"
  by (simp add: sendInflux_def Let_def payloads_append split: option.splits)

lemma convertKbitsToBits_error_zero:
  "snd (convertKbitsToBits kbits) \<noteq> None \<Longrightarrow> fst (convertKbitsToBits kbits) = 0"
  by (simp add: convertKbitsToBits_def split: option.splits if_splits)

section \<open>Facts about the loops\<close>

lemma iperfTest_graphite_returns:
  "tsdbType fl \<noteq> ''influx'' \<Longrightarrow> snd (iperfTest config fl bin dir addr name w) = Returns ()"
  by (simp add: iperfTest_def writeResult_def Let_def split_beta)

lemma iperfEntries_Cons:
  "iperfEntries config fl bin env i ((addr, name) # rest) =
     (case snd (iperfTest config fl bin Download addr (endpointLabel addr name) (env i)) of
        Panics p \<Rightarrow>
          (fst (iperfTest config fl bin Download addr (endpointLabel addr name) (env i)),
           Panics p)
      | Returns u \<Rightarrow>
          (case snd (iperfTest config fl bin Upload addr (endpointLabel addr name) (env (i + 1))) of
             Panics p \<Rightarrow>
               (fst (iperfTest config fl bin Download addr (endpointLabel addr name) (env i)) @
                fst (iperfTest config fl bin Upload addr (endpointLabel addr name) (env (i + 1))),
                Panics p)
           | Returns u' \<Rightarrow>
               (fst (iperfTest config fl bin Download addr (endpointLabel addr name) (env i)) @
                fst (iperfTest config fl bin Upload addr (endpointLabel addr name) (env (i + 1))) @
                fst (iperfEntries config fl bin env (i + 2) rest),
                snd (iperfEntries config fl bin env (i + 2) rest))))"
  by (auto simp: Let_def split: prod.splits outcome.splits)

lemma iperfServers_Cons:
  "iperfServers config fl bin env i (v # vs) =
     (case snd (iperfEntries config fl bin env i v) of
        Panics p \<Rightarrow> (fst (iperfEntries config fl bin env i v), Panics p)
      | Returns j \<Rightarrow>
          (fst (iperfEntries config fl bin env i v) @ fst (iperfServers config fl bin env j vs),
           snd (iperfServers config fl bin env j vs)))"
  by (auto split: prod.splits outcome.splits)

text \<open>The commands of the tests of a list of endpoints: download, then upload, of each.\<close>

lemma iperfEntries_order:
  "prefix (commands (fst (iperfEntries config fl bin env i v)))
     (concat (map (\<lambda>(addr, label).
        [iperfCommand bin fl Download addr, iperfCommand bin fl Upload addr]) v)) \<and>
   sleeps (fst (iperfEntries config fl bin env i v)) = [] \<and>
   (\<forall>j. snd (iperfEntries config fl bin env i v) = Returns j \<longrightarrow>
      j = i + 2 * length v \<and>
      commands (fst (iperfEntries config fl bin env i v)) =
        concat (map (\<lambda>(addr, label).
          [iperfCommand bin fl Download addr, iperfCommand bin fl Upload addr]) v))"
proof (induction v arbitrary: i)
  case Nil
  show ?case by simp
next
  case (Cons e v)
  obtain addr name where e: "e = (addr, name)" by (cases e)
  let ?D = "iperfTest config fl bin Download addr (endpointLabel addr name) (env i)"
  let ?U = "iperfTest config fl bin Upload addr (endpointLabel addr name) (env (i + 1))"
  let ?R = "iperfEntries config fl bin env (i + 2) v"
  have d: "commands (fst ?D) = [iperfCommand bin fl Download addr]" "sleeps (fst ?D) = []"
    by (simp_all add: iperfTest_commands)
  have u: "commands (fst ?U) = [iperfCommand bin fl Upload addr]" "sleeps (fst ?U) = []"
    by (simp_all add: iperfTest_commands)
  note ih = Cons.IH [of "i + 2"]
  show ?case
  proof (cases "snd ?D")
    case (Panics p)
    then have "iperfEntries config fl bin env i (e # v) = (fst ?D, Panics p)"
      unfolding e iperfEntries_Cons by simp
    with d show ?thesis by (simp add: e)
  next
    case rd: (Returns x)
    show ?thesis
    proof (cases "snd ?U")
      case (Panics p)
      with rd have "iperfEntries config fl bin env i (e # v) = (fst ?D @ fst ?U, Panics p)"
        unfolding e iperfEntries_Cons by simp
      with d u show ?thesis by (simp add: e commands_append sleeps_append)
    next
      case (Returns y)
      with rd have "iperfEntries config fl bin env i (e # v) = (fst ?D @ fst ?U @ fst ?R, snd ?R)"
        unfolding e iperfEntries_Cons by simp
      with d u ih show ?thesis by (simp add: e commands_append sleeps_append)
    qed
  qed
qed

lemma iperfServers_order:
  "prefix (commands (fst (iperfServers config fl bin env i vs)))
     (concat (map (\<lambda>(addr, label).
        [iperfCommand bin fl Download addr, iperfCommand bin fl Upload addr]) (concat vs))) \<and>
   sleeps (fst (iperfServers config fl bin env i vs)) = [] \<and>
   (\<forall>j. snd (iperfServers config fl bin env i vs) = Returns j \<longrightarrow>
      j = i + 2 * length (concat vs) \<and>
      commands (fst (iperfServers config fl bin env i vs)) =
        concat (map (\<lambda>(addr, label).
          [iperfCommand bin fl Download addr, iperfCommand bin fl Upload addr]) (concat vs)))"
proof (induction vs arbitrary: i)
  case Nil
  show ?case by simp
next
  case (Cons v vs)
  let ?E = "\<lambda>v. concat (map (\<lambda>(addr, label).
        [iperfCommand bin fl Download addr, iperfCommand bin fl Upload addr]) v)"
  note first = iperfEntries_order [of config fl bin env i v]
  have cat: "?E (concat (v # vs)) = ?E v @ ?E (concat vs)" by simp
  show ?case
  proof (cases "snd (iperfEntries config fl bin env i v)")
    case (Panics p)
    then have eq: "iperfServers config fl bin env i (v # vs) =
        (fst (iperfEntries config fl bin env i v), Panics p)"
      unfolding iperfServers_Cons by simp
    from first have "prefix (commands (fst (iperfEntries config fl bin env i v))) (?E v)"
      by blast
    then have "prefix (commands (fst (iperfEntries config fl bin env i v))) (?E v @ ?E (concat vs))"
      by (rule prefix_prefix)
    with first show ?thesis unfolding eq cat by simp
  next
    case (Returns j)
    then have eq: "iperfServers config fl bin env i (v # vs) =
        (fst (iperfEntries config fl bin env i v) @ fst (iperfServers config fl bin env j vs),
         snd (iperfServers config fl bin env j vs))"
      unfolding iperfServers_Cons by simp
    note ih = Cons.IH [of j]
    from Returns first have c1: "commands (fst (iperfEntries config fl bin env i v)) = ?E v"
      and j: "j = i + 2 * length v" by simp_all
    from first have s1: "sleeps (fst (iperfEntries config fl bin env i v)) = []" by blast
    from ih c1 s1 j show ?thesis
      unfolding eq cat by (auto simp: commands_append sleeps_append)
  qed
qed

lemma iperfEntries_graphite_returns:
  "tsdbType fl \<noteq> ''influx'' \<Longrightarrow> \<exists>j. snd (iperfEntries config fl bin env i v) = Returns j"
proof (induction v arbitrary: i)
  case Nil
  show ?case by simp
next
  case (Cons e v)
  obtain addr name where e: "e = (addr, name)" by (cases e)
  from Cons show ?case
    unfolding e iperfEntries_Cons by (simp add: iperfTest_graphite_returns)
qed

lemma iperfServers_graphite_returns:
  "tsdbType fl \<noteq> ''influx'' \<Longrightarrow> \<exists>j. snd (iperfServers config fl bin env i vs) = Returns j"
proof (induction vs arbitrary: i)
  case Nil
  show ?case by simp
next
  case (Cons v vs)
  from Cons.prems obtain j where "snd (iperfEntries config fl bin env i v) = Returns j"
    using iperfEntries_graphite_returns by blast
  with Cons show ?case unfolding iperfServers_Cons by simp
qed

lemma endpoints_commands:
  "map (\<lambda>(addr, label). f addr) (endpoints vs) = map (\<lambda>(addr, name). f addr) (concat vs)"
  by (induction vs) (auto simp: endpoints_def)

lemma endpoints_concat:
  "concat (map (\<lambda>(addr, label). f addr) (endpoints vs)) =
   concat (map (\<lambda>(addr, name). f addr) (concat vs))"
  by (simp add: endpoints_commands)

lemma length_endpoints: "length (endpoints vs) = length (concat vs)"
  by (induction vs) (auto simp: endpoints_def)


lemma netperfTest_graphite_returns:
  "tsdbType fl \<noteq> ''influx'' \<Longrightarrow> snd (netperfTest config fl bin addr name w) = Returns ()"
  by (simp add: netperfTest_def writeResult_def Let_def split_beta)

lemma netperfEntries_Cons:
  "netperfEntries config fl bin env i ((addr, name) # rest) =
     (case snd (netperfTest config fl bin addr (endpointLabel addr name) (env i)) of
        Panics p \<Rightarrow>
          (fst (netperfTest config fl bin addr (endpointLabel addr name) (env i)), Panics p)
      | Returns u \<Rightarrow>
          (fst (netperfTest config fl bin addr (endpointLabel addr name) (env i)) @
           fst (netperfEntries config fl bin env (i + 1) rest),
           snd (netperfEntries config fl bin env (i + 1) rest)))"
  by (auto simp: Let_def split: prod.splits outcome.splits)

lemma netperfServers_Cons:
  "netperfServers config fl bin env i (v # vs) =
     (case snd (netperfEntries config fl bin env i v) of
        Panics p \<Rightarrow> (fst (netperfEntries config fl bin env i v), Panics p)
      | Returns j \<Rightarrow>
          (fst (netperfEntries config fl bin env i v) @
           fst (netperfServers config fl bin env j vs),
           snd (netperfServers config fl bin env j vs)))"
  by (auto split: prod.splits outcome.splits)

text \<open>A marked test returns and touches no sink.\<close>

lemma iperfTest_marked:
  "Contains (cmdOutput w) ''error'' \<Longrightarrow>
   snd (iperfTest config fl bin dir addr name w) = Returns () \<and>
   filter isSinkEvent (fst (iperfTest config fl bin dir addr name w)) = []"
  by (simp add: iperfTest_def Let_def)

lemma netperfTest_marked:
  "Contains (cmdOutput w) ''sure'' \<Longrightarrow>
   snd (netperfTest config fl bin addr name w) = Returns () \<and>
   filter isSinkEvent (fst (netperfTest config fl bin addr name w)) = []"
  by (simp add: netperfTest_def Let_def)

text \<open>A sweep all of whose probes are marked runs every probe and touches no sink.\<close>

lemma iperfEntries_all_marked:
  assumes "\<forall>k. Contains (cmdOutput (env k)) ''error''"
  shows "snd (iperfEntries config fl bin env i v) = Returns (i + 2 * length v) \<and>
     filter isSinkEvent (fst (iperfEntries config fl bin env i v)) = []"
proof (induction v arbitrary: i)
  case Nil
  show ?case by simp
next
  case (Cons e v)
  obtain addr name where e: "e = (addr, name)" by (cases e)
  from assms have m: "Contains (cmdOutput (env i)) ''error''"
    "Contains (cmdOutput (env (i + 1))) ''error''" by simp_all
  note d = iperfTest_marked [OF m(1), of config fl bin Download addr "endpointLabel addr name"]
  note u = iperfTest_marked [OF m(2), of config fl bin Upload addr "endpointLabel addr name"]
  note ih = Cons.IH [of "i + 2"]
  from d u ih show ?case
    unfolding e iperfEntries_Cons by simp
qed

lemma iperfServers_all_marked:
  assumes "\<forall>k. Contains (cmdOutput (env k)) ''error''"
  shows "snd (iperfServers config fl bin env i vs) = Returns (i + 2 * length (concat vs)) \<and>
     filter isSinkEvent (fst (iperfServers config fl bin env i vs)) = []"
proof (induction vs arbitrary: i)
  case Nil
  show ?case by simp
next
  case (Cons v vs)
  note first = iperfEntries_all_marked [OF assms, of config fl bin i v]
  note ih = Cons.IH [of "i + 2 * length v"]
  from first ih show ?case
    unfolding iperfServers_Cons by simp
qed

lemma netperfEntries_all_marked:
  assumes "\<forall>k. Contains (cmdOutput (env k)) ''sure''"
  shows "snd (netperfEntries config fl bin env i v) = Returns (i + length v) \<and>
     filter isSinkEvent (fst (netperfEntries config fl bin env i v)) = [] \<and>
     commands (fst (netperfEntries config fl bin env i v)) =
       map (\<lambda>(addr, name). netperfCommand bin fl addr) v"
proof (induction v arbitrary: i)
  case Nil
  show ?case by simp
next
  case (Cons e v)
  obtain addr name where e: "e = (addr, name)" by (cases e)
  from assms have m: "Contains (cmdOutput (env i)) ''sure''" by simp
  note d = netperfTest_marked [OF m, of config fl bin addr "endpointLabel addr name"]
  note ih = Cons.IH [of "i + 1"]
  from d ih show ?case
    unfolding e netperfEntries_Cons by (simp add: commands_append netperfTest_commands)
qed

lemma netperfServers_all_marked:
  assumes "\<forall>k. Contains (cmdOutput (env k)) ''sure''"
  shows "snd (netperfServers config fl bin env i vs) = Returns (i + length (concat vs)) \<and>
     filter isSinkEvent (fst (netperfServers config fl bin env i vs)) = [] \<and>
     commands (fst (netperfServers config fl bin env i vs)) =
       map (\<lambda>(addr, name). netperfCommand bin fl addr) (concat vs)"
proof (induction vs arbitrary: i)
  case Nil
  show ?case by simp
next
  case (Cons v vs)
  note first = netperfEntries_all_marked [OF assms, of config fl bin i v]
  note ih = Cons.IH [of "i + length v"]
  from first ih show ?case
    unfolding netperfServers_Cons by (simp add: commands_append)
qed

section \<open>Probe output with the failure marker\<close>

text \<open>
  Claim C3. When the output of an iperf probe contains \<open>error\<close>, or the output of a
  netperf probe contains \<open>sure\<close>, the test does nothing but log errors: the output is
  not converted, no sink is dialled or posted to, and the test returns, whatever else
  the output contains. The loops then go on. After a marked download the upload test
  of the same entry is run, whatever its output, and if that returns the rest of the
  entries; after a marked upload the rest of the entries are run. The outer loop goes
  on to the next map of the registry when the entries of a map are done, so after a
  marked test of a map of one entry (what \<open>mapPerfDest\<close> builds) the next endpoint is
  tested. The netperf loops go on to the next entry and the next map alike. A sweep
  all of whose probes are marked runs every probe, touches no sink and ends in its
  sleep.
\<close>

theorem C3_failure_marker_skips_measurement:
  "(Contains (cmdOutput w) ''error'' \<longrightarrow>
      iperfTest config fl bin dir addr name w =
        ([RunCmd (iperfCommand bin fl dir addr),
          Log Error ''Error testing to the target server at %s:%s''
            [ArgS addr, ArgS (perfServerPort fl)],
          Log Error ''Verify iperf is running and reachable at %s:%s''
            [ArgS addr, ArgS (perfServerPort fl)],
          Log Error [] [ArgErr (cmdErr w), ArgS (cmdOutput w)]],
         Returns ()) \<and>
      filter isSinkEvent (fst (iperfTest config fl bin dir addr name w)) = []) \<and>
   (Contains (cmdOutput w) ''sure'' \<longrightarrow>
      netperfTest config fl bin addr name w =
        ([RunCmd (netperfCommand bin fl addr),
          Log Error ''Error testing to the target server at %s:%s''
            [ArgS addr, ArgS (perfServerPort fl)],
          Log Error ''Verify netserver is running and reachable at %s:%s''
            [ArgS addr, ArgS (perfServerPort fl)]],
         Returns ()) \<and>
      filter isSinkEvent (fst (netperfTest config fl bin addr name w)) = []) \<and>
   (Contains (cmdOutput (env i)) ''error'' \<longrightarrow>
      iperfEntries config fl bin env i ((addr, name) # rest) =
        (case snd (iperfTest config fl bin Upload addr (endpointLabel addr name) (env (i + 1))) of
           Panics p \<Rightarrow>
             (fst (iperfTest config fl bin Download addr (endpointLabel addr name) (env i)) @
              fst (iperfTest config fl bin Upload addr (endpointLabel addr name) (env (i + 1))),
              Panics p)
         | Returns u \<Rightarrow>
             (fst (iperfTest config fl bin Download addr (endpointLabel addr name) (env i)) @
              fst (iperfTest config fl bin Upload addr (endpointLabel addr name) (env (i + 1))) @
              fst (iperfEntries config fl bin env (i + 2) rest),
              snd (iperfEntries config fl bin env (i + 2) rest)))) \<and>
   (snd (iperfTest config fl bin Download addr (endpointLabel addr name) (env i)) = Returns () \<and>
    Contains (cmdOutput (env (i + 1))) ''error'' \<longrightarrow>
      iperfEntries config fl bin env i ((addr, name) # rest) =
        (fst (iperfTest config fl bin Download addr (endpointLabel addr name) (env i)) @
         fst (iperfTest config fl bin Upload addr (endpointLabel addr name) (env (i + 1))) @
         fst (iperfEntries config fl bin env (i + 2) rest),
         snd (iperfEntries config fl bin env (i + 2) rest))) \<and>
   (snd (iperfEntries config fl bin env i v) = Returns j \<longrightarrow>
      iperfServers config fl bin env i (v # vs) =
        (fst (iperfEntries config fl bin env i v) @ fst (iperfServers config fl bin env j vs),
         snd (iperfServers config fl bin env j vs))) \<and>
   ((Contains (cmdOutput (env i)) ''error'' \<or>
     snd (iperfTest config fl bin Download addr (endpointLabel addr name) (env i)) = Returns ()) \<and>
    (Contains (cmdOutput (env (i + 1))) ''error'' \<or>
     snd (iperfTest config fl bin Upload addr (endpointLabel addr name) (env (i + 1))) = Returns ()) \<longrightarrow>
      iperfServers config fl bin env i ([(addr, name)] # vs) =
        (fst (iperfTest config fl bin Download addr (endpointLabel addr name) (env i)) @
         fst (iperfTest config fl bin Upload addr (endpointLabel addr name) (env (i + 1))) @
         fst (iperfServers config fl bin env (i + 2) vs),
         snd (iperfServers config fl bin env (i + 2) vs))) \<and>
   (Contains (cmdOutput (env i)) ''sure'' \<longrightarrow>
      netperfEntries config fl bin env i ((addr, name) # rest) =
        (fst (netperfTest config fl bin addr (endpointLabel addr name) (env i)) @
         fst (netperfEntries config fl bin env (i + 1) rest),
         snd (netperfEntries config fl bin env (i + 1) rest)) \<and>
      netperfServers config fl bin env i ([(addr, name)] # vs) =
        (fst (netperfTest config fl bin addr (endpointLabel addr name) (env i)) @
         fst (netperfServers config fl bin env (i + 1) vs),
         snd (netperfServers config fl bin env (i + 1) vs))) \<and>
   (snd (netperfEntries config fl bin env i v) = Returns j \<longrightarrow>
      netperfServers config fl bin env i (v # vs) =
        (fst (netperfEntries config fl bin env i v) @ fst (netperfServers config fl bin env j vs),
         snd (netperfServers config fl bin env j vs))) \<and>
   ((\<forall>k. Contains (cmdOutput (env k)) ''error'') \<longrightarrow>
      snd (iperfSweep fm config fl bin env i) =
        Returns (i + 2 * length (endpoints (PerfServers config))) \<and>
      commands (fst (iperfSweep fm config fl bin env i)) =
        concat (map (\<lambda>(addr, label).
          [iperfCommand bin fl Download addr, iperfCommand bin fl Upload addr])
          (endpoints (PerfServers config))) \<and>
      filter isSinkEvent (fst (iperfSweep fm config fl bin env i)) = [] \<and>
      sleeps (fst (iperfSweep fm config fl bin env i)) = [pollInterval fm fl]) \<and>
   ((\<forall>k. Contains (cmdOutput (env k)) ''sure'') \<longrightarrow>
      snd (netperfSweep fm config fl bin env i) =
        Returns (i + length (endpoints (PerfServers config))) \<and>
      commands (fst (netperfSweep fm config fl bin env i)) =
        map (\<lambda>(addr, label). netperfCommand bin fl addr) (endpoints (PerfServers config)) \<and>
      filter isSinkEvent (fst (netperfSweep fm config fl bin env i)) = [])"
proof (intro conjI impI)
  assume m: "Contains (cmdOutput w) ''error''"
  then show t: "iperfTest config fl bin dir addr name w =
        ([RunCmd (iperfCommand bin fl dir addr),
          Log Error ''Error testing to the target server at %s:%s''
            [ArgS addr, ArgS (perfServerPort fl)],
          Log Error ''Verify iperf is running and reachable at %s:%s''
            [ArgS addr, ArgS (perfServerPort fl)],
          Log Error [] [ArgErr (cmdErr w), ArgS (cmdOutput w)]],
         Returns ())"
    by (simp add: iperfTest_def Let_def)
  show "filter isSinkEvent (fst (iperfTest config fl bin dir addr name w)) = []"
    by (simp add: t)
next
  assume m: "Contains (cmdOutput w) ''sure''"
  then show t: "netperfTest config fl bin addr name w =
        ([RunCmd (netperfCommand bin fl addr),
          Log Error ''Error testing to the target server at %s:%s''
            [ArgS addr, ArgS (perfServerPort fl)],
          Log Error ''Verify netserver is running and reachable at %s:%s''
            [ArgS addr, ArgS (perfServerPort fl)]],
         Returns ())"
    by (simp add: netperfTest_def Let_def)
  show "filter isSinkEvent (fst (netperfTest config fl bin addr name w)) = []"
    by (simp add: t)
next
  assume m: "Contains (cmdOutput (env i)) ''error''"
  note d = iperfTest_marked [OF m, of config fl bin Download addr "endpointLabel addr name"]
  from d show "iperfEntries config fl bin env i ((addr, name) # rest) =
        (case snd (iperfTest config fl bin Upload addr (endpointLabel addr name) (env (i + 1))) of
           Panics p \<Rightarrow>
             (fst (iperfTest config fl bin Download addr (endpointLabel addr name) (env i)) @
              fst (iperfTest config fl bin Upload addr (endpointLabel addr name) (env (i + 1))),
              Panics p)
         | Returns u \<Rightarrow>
             (fst (iperfTest config fl bin Download addr (endpointLabel addr name) (env i)) @
              fst (iperfTest config fl bin Upload addr (endpointLabel addr name) (env (i + 1))) @
              fst (iperfEntries config fl bin env (i + 2) rest),
              snd (iperfEntries config fl bin env (i + 2) rest)))"
    unfolding iperfEntries_Cons by simp
next
  assume h: "snd (iperfTest config fl bin Download addr (endpointLabel addr name) (env i)) = Returns () \<and>
    Contains (cmdOutput (env (i + 1))) ''error''"
  then have m: "Contains (cmdOutput (env (i + 1))) ''error''" by simp
  note u = iperfTest_marked [OF m, of config fl bin Upload addr "endpointLabel addr name"]
  from h u show "iperfEntries config fl bin env i ((addr, name) # rest) =
        (fst (iperfTest config fl bin Download addr (endpointLabel addr name) (env i)) @
         fst (iperfTest config fl bin Upload addr (endpointLabel addr name) (env (i + 1))) @
         fst (iperfEntries config fl bin env (i + 2) rest),
         snd (iperfEntries config fl bin env (i + 2) rest))"
    unfolding iperfEntries_Cons by simp
next
  assume "snd (iperfEntries config fl bin env i v) = Returns j"
  then show "iperfServers config fl bin env i (v # vs) =
        (fst (iperfEntries config fl bin env i v) @ fst (iperfServers config fl bin env j vs),
         snd (iperfServers config fl bin env j vs))"
    unfolding iperfServers_Cons by simp
next
  assume h: "(Contains (cmdOutput (env i)) ''error'' \<or>
     snd (iperfTest config fl bin Download addr (endpointLabel addr name) (env i)) = Returns ()) \<and>
    (Contains (cmdOutput (env (i + 1))) ''error'' \<or>
     snd (iperfTest config fl bin Upload addr (endpointLabel addr name) (env (i + 1))) = Returns ())"
  have d: "snd (iperfTest config fl bin Download addr (endpointLabel addr name) (env i)) = Returns ()"
    using h iperfTest_marked [of "env i" config fl bin Download addr "endpointLabel addr name"]
    by blast
  have u: "snd (iperfTest config fl bin Upload addr (endpointLabel addr name) (env (i + 1))) = Returns ()"
    using h iperfTest_marked [of "env (i + 1)" config fl bin Upload addr "endpointLabel addr name"]
    by blast
  have one: "iperfEntries config fl bin env i [(addr, name)] =
      (fst (iperfTest config fl bin Download addr (endpointLabel addr name) (env i)) @
       fst (iperfTest config fl bin Upload addr (endpointLabel addr name) (env (i + 1))),
       Returns (i + 2))"
    unfolding iperfEntries_Cons using d u by simp
  show "iperfServers config fl bin env i ([(addr, name)] # vs) =
        (fst (iperfTest config fl bin Download addr (endpointLabel addr name) (env i)) @
         fst (iperfTest config fl bin Upload addr (endpointLabel addr name) (env (i + 1))) @
         fst (iperfServers config fl bin env (i + 2) vs),
         snd (iperfServers config fl bin env (i + 2) vs))"
    unfolding iperfServers_Cons one by simp
next
  assume m: "Contains (cmdOutput (env i)) ''sure''"
  note d = netperfTest_marked [OF m, of config fl bin addr "endpointLabel addr name"]
  from d show "netperfEntries config fl bin env i ((addr, name) # rest) =
        (fst (netperfTest config fl bin addr (endpointLabel addr name) (env i)) @
         fst (netperfEntries config fl bin env (i + 1) rest),
         snd (netperfEntries config fl bin env (i + 1) rest))"
    unfolding netperfEntries_Cons by simp
  have one: "netperfEntries config fl bin env i [(addr, name)] =
      (fst (netperfTest config fl bin addr (endpointLabel addr name) (env i)), Returns (i + 1))"
    unfolding netperfEntries_Cons using d by simp
  show "netperfServers config fl bin env i ([(addr, name)] # vs) =
        (fst (netperfTest config fl bin addr (endpointLabel addr name) (env i)) @
         fst (netperfServers config fl bin env (i + 1) vs),
         snd (netperfServers config fl bin env (i + 1) vs))"
    unfolding netperfServers_Cons one by simp
next
  assume "snd (netperfEntries config fl bin env i v) = Returns j"
  then show "netperfServers config fl bin env i (v # vs) =
        (fst (netperfEntries config fl bin env i v) @ fst (netperfServers config fl bin env j vs),
         snd (netperfServers config fl bin env j vs))"
    unfolding netperfServers_Cons by simp
next
  assume all: "\<forall>k. Contains (cmdOutput (env k)) ''error''"
  let ?S = "iperfServers config fl bin env i (PerfServers config)"
  note marked = iperfServers_all_marked [OF all, of config fl bin i "PerfServers config"]
  note order = iperfServers_order [of config fl bin env i "PerfServers config"]
  from marked have eq: "iperfSweep fm config fl bin env i =
      (fst ?S @ [Sleep (pollInterval fm fl)], Returns (i + 2 * length (concat (PerfServers config))))"
    by (auto simp: iperfSweep_def split: prod.splits)
  show "snd (iperfSweep fm config fl bin env i) =
        Returns (i + 2 * length (endpoints (PerfServers config)))"
    unfolding eq by (simp add: length_endpoints)
  show "commands (fst (iperfSweep fm config fl bin env i)) =
        concat (map (\<lambda>(addr, label).
          [iperfCommand bin fl Download addr, iperfCommand bin fl Upload addr])
          (endpoints (PerfServers config)))"
    unfolding eq using marked order by (simp add: commands_append endpoints_concat)
  show "filter isSinkEvent (fst (iperfSweep fm config fl bin env i)) = []"
    unfolding eq using marked by simp
  show "sleeps (fst (iperfSweep fm config fl bin env i)) = [pollInterval fm fl]"
    unfolding eq using order by (simp add: sleeps_append)
next
  assume all: "\<forall>k. Contains (cmdOutput (env k)) ''sure''"
  let ?S = "netperfServers config fl bin env i (PerfServers config)"
  note marked = netperfServers_all_marked [OF all, of config fl bin i "PerfServers config"]
  from marked have eq: "netperfSweep fm config fl bin env i =
      (fst ?S @ [Sleep (pollInterval fm fl)], Returns (i + length (concat (PerfServers config))))"
    by (auto simp: netperfSweep_def split: prod.splits)
  show "snd (netperfSweep fm config fl bin env i) =
        Returns (i + length (endpoints (PerfServers config)))"
    unfolding eq by (simp add: length_endpoints)
  show "commands (fst (netperfSweep fm config fl bin env i)) =
        map (\<lambda>(addr, label). netperfCommand bin fl addr) (endpoints (PerfServers config))"
    unfolding eq using marked by (simp add: commands_append endpoints_commands)
  show "filter isSinkEvent (fst (netperfSweep fm config fl bin env i)) = []"
    unfolding eq using marked by simp
qed

theorem C3_failure_marker_skips_measurement_witness:
  "filter isSinkEvent
     (fst (iperfTest exampleConfig (exampleFlags [] ''300'') ''iperf3'' Upload ''10.0.0.5''
        ''host1'' (exampleAnswers ''iperf3: error - unable to connect 12345''))) = [] \<and>
   snd (iperfTest exampleConfig (exampleFlags [] ''300'') ''iperf3'' Upload ''10.0.0.5''
        ''host1'' (exampleAnswers ''iperf3: error - unable to connect 12345'')) = Returns () \<and>
   filter isSinkEvent
     (fst (netperfTest exampleConfig (exampleFlags [] ''300'') ''netperf'' ''10.0.0.5''
        ''host1'' (exampleAnswers ''are you sure 12345''))) = [] \<and>
   snd (netperfTest exampleConfig (exampleFlags [] ''300'') ''netperf'' ''10.0.0.5''
        ''host1'' (exampleAnswers ''are you sure 12345'')) = Returns () \<and>
   commands (fst (iperfServers exampleConfig (exampleFlags [] ''300'') ''iperf3''
      (exampleWorld (exampleAnswers ''iperf3: error - unable to connect 12345'')
         (exampleAnswers ''12345''))
      0 [[(''10.0.0.5'', ''host1'')], [(''10.0.0.6'', [])]])) =
     [iperfCommand ''iperf3'' (exampleFlags [] ''300'') Download ''10.0.0.5'',
      iperfCommand ''iperf3'' (exampleFlags [] ''300'') Upload ''10.0.0.5'',
      iperfCommand ''iperf3'' (exampleFlags [] ''300'') Download ''10.0.0.6'',
      iperfCommand ''iperf3'' (exampleFlags [] ''300'') Upload ''10.0.0.6''] \<and>
   commands (fst (netperfServers exampleConfig (exampleFlags [] ''300'') ''netperf''
      (exampleWorld (exampleAnswers ''are you sure 12345'') (exampleAnswers ''12345''))
      0 [[(''10.0.0.5'', ''host1'')], [(''10.0.0.6'', [])]])) =
     [netperfCommand ''netperf'' (exampleFlags [] ''300'') ''10.0.0.5'',
      netperfCommand ''netperf'' (exampleFlags [] ''300'') ''10.0.0.6'']"
proof -
  let ?fl = "exampleFlags [] ''300''"
  let ?ie = "exampleWorld (exampleAnswers ''iperf3: error - unable to connect 12345'')
         (exampleAnswers ''12345'')"
  let ?ne = "exampleWorld (exampleAnswers ''are you sure 12345'') (exampleAnswers ''12345'')"
  have g: "tsdbType ?fl \<noteq> ''influx''" by (simp add: exampleFlags_def)
  note i3 = C3_failure_marker_skips_measurement
      [where w = "exampleAnswers ''iperf3: error - unable to connect 12345''"
         and config = exampleConfig and fl = ?fl and bin = "''iperf3''"
         and dir = Upload and addr = "''10.0.0.5''" and name = "''host1''"
         and env = ?ie and i = 0 and vs = "[[(''10.0.0.6'', [])]]"]
  note n3 = C3_failure_marker_skips_measurement
      [where w = "exampleAnswers ''are you sure 12345''"
         and config = exampleConfig and fl = ?fl and bin = "''netperf''"
         and addr = "''10.0.0.5''" and name = "''host1''"
         and env = ?ne and i = 0 and vs = "[[(''10.0.0.6'', [])]]"]
  have mi: "Contains (cmdOutput (exampleAnswers ''iperf3: error - unable to connect 12345'')) ''error''"
    by (simp add: exampleAnswers_def)
  have mn: "Contains (cmdOutput (exampleAnswers ''are you sure 12345'')) ''sure''"
    by (simp add: exampleAnswers_def)
  have mi0: "Contains (cmdOutput (?ie 0)) ''error''"
    using mi by (simp add: exampleWorld_def)
  have mn0: "Contains (cmdOutput (?ne 0)) ''sure''"
    using mn by (simp add: exampleWorld_def)
  have up: "snd (iperfTest exampleConfig ?fl ''iperf3'' Upload ''10.0.0.5''
      (endpointLabel ''10.0.0.5'' ''host1'') (?ie (0 + 1))) = Returns ()"
    using g by (rule iperfTest_graphite_returns)
  from i3 mi0 up have step: "iperfServers exampleConfig ?fl ''iperf3'' ?ie 0
      ([(''10.0.0.5'', ''host1'')] # [[(''10.0.0.6'', [])]]) =
        (fst (iperfTest exampleConfig ?fl ''iperf3'' Download ''10.0.0.5''
           (endpointLabel ''10.0.0.5'' ''host1'') (?ie 0)) @
         fst (iperfTest exampleConfig ?fl ''iperf3'' Upload ''10.0.0.5''
           (endpointLabel ''10.0.0.5'' ''host1'') (?ie (0 + 1))) @
         fst (iperfServers exampleConfig ?fl ''iperf3'' ?ie (0 + 2) [[(''10.0.0.6'', [])]]),
         snd (iperfServers exampleConfig ?fl ''iperf3'' ?ie (0 + 2) [[(''10.0.0.6'', [])]]))"
    by blast
  obtain j where j: "snd (iperfServers exampleConfig ?fl ''iperf3'' ?ie (0 + 2)
      [[(''10.0.0.6'', [])]]) = Returns j"
    using iperfServers_graphite_returns [OF g] by blast
  with iperfServers_order [of exampleConfig ?fl "''iperf3''" ?ie "0 + 2" "[[(''10.0.0.6'', [])]]"]
  have later: "commands (fst (iperfServers exampleConfig ?fl ''iperf3'' ?ie (0 + 2)
      [[(''10.0.0.6'', [])]])) =
        [iperfCommand ''iperf3'' ?fl Download ''10.0.0.6'',
         iperfCommand ''iperf3'' ?fl Upload ''10.0.0.6'']"
    by simp
  have c5: "commands (fst (iperfServers exampleConfig ?fl ''iperf3'' ?ie 0
      [[(''10.0.0.5'', ''host1'')], [(''10.0.0.6'', [])]])) =
     [iperfCommand ''iperf3'' ?fl Download ''10.0.0.5'',
      iperfCommand ''iperf3'' ?fl Upload ''10.0.0.5'',
      iperfCommand ''iperf3'' ?fl Download ''10.0.0.6'',
      iperfCommand ''iperf3'' ?fl Upload ''10.0.0.6'']"
    unfolding step by (simp only: fst_conv commands_append iperfTest_commands later append.simps)
  from n3 mn0 have nstep: "netperfServers exampleConfig ?fl ''netperf'' ?ne 0
      ([(''10.0.0.5'', ''host1'')] # [[(''10.0.0.6'', [])]]) =
        (fst (netperfTest exampleConfig ?fl ''netperf'' ''10.0.0.5''
           (endpointLabel ''10.0.0.5'' ''host1'') (?ne 0)) @
         fst (netperfServers exampleConfig ?fl ''netperf'' ?ne (0 + 1) [[(''10.0.0.6'', [])]]),
         snd (netperfServers exampleConfig ?fl ''netperf'' ?ne (0 + 1) [[(''10.0.0.6'', [])]]))"
    by blast
  have nlater: "commands (fst (netperfServers exampleConfig ?fl ''netperf'' ?ne (0 + 1)
      [[(''10.0.0.6'', [])]])) = [netperfCommand ''netperf'' ?fl ''10.0.0.6'']"
    using netperfTest_graphite_returns [OF g, of exampleConfig "''netperf''" "''10.0.0.6''"
        "endpointLabel ''10.0.0.6'' []" "?ne (0 + 1)"]
    unfolding netperfServers_Cons netperfEntries_Cons
    by (simp add: commands_append netperfTest_commands)
  have c6: "commands (fst (netperfServers exampleConfig ?fl ''netperf'' ?ne 0
      [[(''10.0.0.5'', ''host1'')], [(''10.0.0.6'', [])]])) =
     [netperfCommand ''netperf'' ?fl ''10.0.0.5'', netperfCommand ''netperf'' ?fl ''10.0.0.6'']"
    unfolding nstep by (simp only: fst_conv commands_append netperfTest_commands nlater append.simps)
  from i3 mi have t1: "filter isSinkEvent
     (fst (iperfTest exampleConfig ?fl ''iperf3'' Upload ''10.0.0.5''
        ''host1'' (exampleAnswers ''iperf3: error - unable to connect 12345''))) = []"
    and t2: "snd (iperfTest exampleConfig ?fl ''iperf3'' Upload ''10.0.0.5''
        ''host1'' (exampleAnswers ''iperf3: error - unable to connect 12345'')) = Returns ()"
    by simp_all
  from n3 mn have t3: "filter isSinkEvent
     (fst (netperfTest exampleConfig ?fl ''netperf'' ''10.0.0.5''
        ''host1'' (exampleAnswers ''are you sure 12345''))) = []"
    and t4: "snd (netperfTest exampleConfig ?fl ''netperf'' ''10.0.0.5''
        ''host1'' (exampleAnswers ''are you sure 12345'')) = Returns ()"
    by simp_all
  from t1 t2 t3 t4 c5 c6 show ?thesis by (intro conjI)
qed

section \<open>The payload of a measurement\<close>

text \<open>
  Claim C4. For a probe output without the failure marker, the payload handed to the
  sink is a function of the measurement and the configuration alone. For Graphite
  (once the connection is open) it is the line
  \<open><prefix>.<label> <bitsPerSecond> <unixSeconds>\n\<close>, with the download or the
  upload prefix by direction. For Influx (once the request is built) it is
  \<open><measurementName>,testType=<prefix>,iperfDestination=<label>,iperfSource=<hostname>
  <field>=<bitsPerSecond>\<close> with no time in it, where the field is \<open>iperfResultsBps\<close>
  for both iperf directions and \<open>iperfDownloadResultsBps\<close> for netperf.
\<close>

theorem C4_payload_format:
  "(\<not> Contains (cmdOutput w) ''error'' \<and> tsdbType fl \<noteq> ''influx'' \<and> dialErr w = None \<longrightarrow>
      payloads (fst (iperfTest config fl bin dir addr label w)) =
        [(case dir of Download \<Rightarrow> downloadPrefix fl | Upload \<Rightarrow> uploadPrefix fl) @
         ''.'' @ label @ '' '' @ itoa (fst (convertKbitsToBits (cmdOutput w))) @
         '' '' @ itoa (unixNow w) @ [CHR 0x0A]]) \<and>
   (\<not> Contains (cmdOutput w) ''error'' \<and> tsdbType fl = ''influx'' \<and> newRequestErr w = None \<longrightarrow>
      payloads (fst (iperfTest config fl bin dir addr label w)) =
        [MeasurementName config @ '',testType='' @
         (case dir of Download \<Rightarrow> downloadPrefix fl | Upload \<Rightarrow> uploadPrefix fl) @
         '',iperfDestination='' @ label @ '',iperfSource='' @ Hostname config @
         '' iperfResultsBps='' @ itoa (fst (convertKbitsToBits (cmdOutput w)))]) \<and>
   (\<not> Contains (cmdOutput w) ''sure'' \<and> tsdbType fl \<noteq> ''influx'' \<and> dialErr w = None \<longrightarrow>
      payloads (fst (netperfTest config fl bin addr label w)) =
        [downloadPrefix fl @ ''.'' @ label @ '' '' @
         itoa (fst (convertKbitsToBits (cmdOutput w))) @
         '' '' @ itoa (unixNow w) @ [CHR 0x0A]]) \<and>
   (\<not> Contains (cmdOutput w) ''sure'' \<and> tsdbType fl = ''influx'' \<and> newRequestErr w = None \<longrightarrow>
      payloads (fst (netperfTest config fl bin addr label w)) =
        [MeasurementName config @ '',testType='' @ downloadPrefix fl @
         '',iperfDestination='' @ label @ '',iperfSource='' @ Hostname config @
         '' iperfDownloadResultsBps='' @ itoa (fst (convertKbitsToBits (cmdOutput w)))])"
proof (intro conjI impI)
  assume h: "\<not> Contains (cmdOutput w) ''error'' \<and> tsdbType fl \<noteq> ''influx'' \<and> dialErr w = None"
  then show "payloads (fst (iperfTest config fl bin dir addr label w)) =
        [(case dir of Download \<Rightarrow> downloadPrefix fl | Upload \<Rightarrow> uploadPrefix fl) @
         ''.'' @ label @ '' '' @ itoa (fst (convertKbitsToBits (cmdOutput w))) @
         '' '' @ itoa (unixNow w) @ [CHR 0x0A]]"
    by (simp add: iperfTest_def writeResult_def Let_def split_beta payloads_append
        sendGraphite_payloads graphiteMsg_def)
next
  assume h: "\<not> Contains (cmdOutput w) ''error'' \<and> tsdbType fl = ''influx'' \<and> newRequestErr w = None"
  then show "payloads (fst (iperfTest config fl bin dir addr label w)) =
        [MeasurementName config @ '',testType='' @
         (case dir of Download \<Rightarrow> downloadPrefix fl | Upload \<Rightarrow> uploadPrefix fl) @
         '',iperfDestination='' @ label @ '',iperfSource='' @ Hostname config @
         '' iperfResultsBps='' @ itoa (fst (convertKbitsToBits (cmdOutput w)))]"
    by (simp add: iperfTest_def writeResult_def Let_def split_beta payloads_append
        sendInflux_payloads influxMsg_def)
next
  assume h: "\<not> Contains (cmdOutput w) ''sure'' \<and> tsdbType fl \<noteq> ''influx'' \<and> dialErr w = None"
  then show "payloads (fst (netperfTest config fl bin addr label w)) =
        [downloadPrefix fl @ ''.'' @ label @ '' '' @
         itoa (fst (convertKbitsToBits (cmdOutput w))) @
         '' '' @ itoa (unixNow w) @ [CHR 0x0A]]"
    by (simp add: netperfTest_def writeResult_def Let_def split_beta payloads_append
        sendGraphite_payloads graphiteMsg_def)
next
  assume h: "\<not> Contains (cmdOutput w) ''sure'' \<and> tsdbType fl = ''influx'' \<and> newRequestErr w = None"
  then show "payloads (fst (netperfTest config fl bin addr label w)) =
        [MeasurementName config @ '',testType='' @ downloadPrefix fl @
         '',iperfDestination='' @ label @ '',iperfSource='' @ Hostname config @
         '' iperfDownloadResultsBps='' @ itoa (fst (convertKbitsToBits (cmdOutput w)))]"
    by (simp add: netperfTest_def writeResult_def Let_def split_beta payloads_append
        sendInflux_payloads influxMsg_def)
qed

lemma convert_12345: "convertKbitsToBits ''12345'' = (12345000, None)"
  by (simp add: convertKbitsToBits_def parseInt_def isDigit_def decimal_def digitVal_def
      wrap64_def)

lemma itoa_12345000: "itoa 12345000 = ''12345000''"
  by (simp add: itoa_def digits.simps)

lemma itoa_1700000000: "itoa 1700000000 = ''1700000000''"
  by (simp add: itoa_def digits.simps)

theorem C4_payload_format_witness:
  "payloads (fst (iperfTest exampleConfig (exampleFlags [] ''300'') ''iperf3'' Download
      ''10.0.0.5'' ''host1'' (exampleAnswers ''12345''))) =
     [''bandwidth.download.host1 12345000 1700000000'' @ [CHR 0x0A]] \<and>
   payloads (fst (iperfTest exampleConfig (exampleFlags ''influx'' ''300'') ''iperf3'' Upload
      ''10.0.0.5'' ''host1'' (exampleAnswers ''12345''))) =
     [''bandwidth,testType=bandwidth.upload,iperfDestination=host1,iperfSource=probe1 iperfResultsBps=12345000''] \<and>
   payloads (fst (netperfTest exampleConfig (exampleFlags [] ''300'') ''netperf''
      ''10.0.0.5'' ''host1'' (exampleAnswers ''12345''))) =
     [''bandwidth.download.host1 12345000 1700000000'' @ [CHR 0x0A]] \<and>
   payloads (fst (netperfTest exampleConfig (exampleFlags ''influx'' ''300'') ''netperf''
      ''10.0.0.5'' ''host1'' (exampleAnswers ''12345''))) =
     [''bandwidth,testType=bandwidth.download,iperfDestination=host1,iperfSource=probe1 iperfDownloadResultsBps=12345000'']"
  using C4_payload_format
      [where w = "exampleAnswers ''12345''" and config = exampleConfig
         and fl = "exampleFlags [] ''300''" and dir = Download and addr = "''10.0.0.5''"
         and label = "''host1''"]
    C4_payload_format
      [where w = "exampleAnswers ''12345''" and config = exampleConfig
         and fl = "exampleFlags ''influx'' ''300''" and dir = Upload and addr = "''10.0.0.5''"
         and label = "''host1''"]
  by (simp add: exampleAnswers_def exampleFlags_def exampleConfig_def convert_12345
      itoa_12345000 itoa_1700000000)

section \<open>Probe output that is not a number\<close>

text \<open>
  Claim C1 says that an output without the failure marker that does not convert to
  an integer is skipped. The code logs the conversion error and goes on to the send:
  with such an output the iperf test dials Graphite and, on an open connection,
  writes a line whose value is \<open>0\<close>; with the flag \<open>influx\<close> it posts a line whose
  value is \<open>0\<close>. The netperf test does the same.
\<close>

theorem C1_conversion_error_is_sent:
  "(\<not> Contains (cmdOutput w) ''error'' \<and> snd (convertKbitsToBits (cmdOutput w)) \<noteq> None \<longrightarrow>
      Log Error
        ''no valid integer returned from the iperf test, please run with --debug for details''
        [] \<in> set (fst (iperfTest config fl bin dir addr label w)) \<and>
      (tsdbType fl \<noteq> ''influx'' \<longrightarrow>
         Dial ''tcp'' (GraphiteHostPort config) \<in> set (fst (iperfTest config fl bin dir addr label w))) \<and>
      (tsdbType fl \<noteq> ''influx'' \<and> dialErr w = None \<longrightarrow>
         payloads (fst (iperfTest config fl bin dir addr label w)) =
           [(case dir of Download \<Rightarrow> downloadPrefix fl | Upload \<Rightarrow> uploadPrefix fl) @
            ''.'' @ label @ '' 0 '' @ itoa (unixNow w) @ [CHR 0x0A]]) \<and>
      (tsdbType fl = ''influx'' \<and> newRequestErr w = None \<longrightarrow>
         payloads (fst (iperfTest config fl bin dir addr label w)) =
           [MeasurementName config @ '',testType='' @
            (case dir of Download \<Rightarrow> downloadPrefix fl | Upload \<Rightarrow> uploadPrefix fl) @
            '',iperfDestination='' @ label @ '',iperfSource='' @ Hostname config @
            '' iperfResultsBps=0''])) \<and>
   (\<not> Contains (cmdOutput w) ''sure'' \<and> snd (convertKbitsToBits (cmdOutput w)) \<noteq> None \<and>
    tsdbType fl \<noteq> ''influx'' \<and> dialErr w = None \<longrightarrow>
      payloads (fst (netperfTest config fl bin addr label w)) =
        [downloadPrefix fl @ ''.'' @ label @ '' 0 '' @ itoa (unixNow w) @ [CHR 0x0A]])"
proof -
  have zero: "itoa 0 = ''0''" by (simp add: itoa_def digits.simps)
  show ?thesis
  proof (intro conjI impI)
    assume h: "\<not> Contains (cmdOutput w) ''error'' \<and> snd (convertKbitsToBits (cmdOutput w)) \<noteq> None"
    then show "Log Error
        ''no valid integer returned from the iperf test, please run with --debug for details''
        [] \<in> set (fst (iperfTest config fl bin dir addr label w))"
      by (simp add: iperfTest_def Let_def split_beta)
  next
    assume h: "\<not> Contains (cmdOutput w) ''error'' \<and> snd (convertKbitsToBits (cmdOutput w)) \<noteq> None"
      and g: "tsdbType fl \<noteq> ''influx''"
    then show "Dial ''tcp'' (GraphiteHostPort config) \<in> set (fst (iperfTest config fl bin dir addr label w))"
      by (simp add: iperfTest_def writeResult_def Let_def split_beta sendGraphite_dials)
  next
    assume h: "\<not> Contains (cmdOutput w) ''error'' \<and> snd (convertKbitsToBits (cmdOutput w)) \<noteq> None"
      and g: "tsdbType fl \<noteq> ''influx'' \<and> dialErr w = None"
    from h have "fst (convertKbitsToBits (cmdOutput w)) = 0"
      by (simp add: convertKbitsToBits_error_zero)
    with h g show "payloads (fst (iperfTest config fl bin dir addr label w)) =
           [(case dir of Download \<Rightarrow> downloadPrefix fl | Upload \<Rightarrow> uploadPrefix fl) @
            ''.'' @ label @ '' 0 '' @ itoa (unixNow w) @ [CHR 0x0A]]"
      by (simp add: iperfTest_def writeResult_def Let_def split_beta payloads_append
          sendGraphite_payloads graphiteMsg_def zero)
  next
    assume h: "\<not> Contains (cmdOutput w) ''error'' \<and> snd (convertKbitsToBits (cmdOutput w)) \<noteq> None"
      and g: "tsdbType fl = ''influx'' \<and> newRequestErr w = None"
    from h have "fst (convertKbitsToBits (cmdOutput w)) = 0"
      by (simp add: convertKbitsToBits_error_zero)
    with h g show "payloads (fst (iperfTest config fl bin dir addr label w)) =
           [MeasurementName config @ '',testType='' @
            (case dir of Download \<Rightarrow> downloadPrefix fl | Upload \<Rightarrow> uploadPrefix fl) @
            '',iperfDestination='' @ label @ '',iperfSource='' @ Hostname config @
            '' iperfResultsBps=0'']"
      by (simp add: iperfTest_def writeResult_def Let_def split_beta payloads_append
          sendInflux_payloads influxMsg_def zero)
  next
    assume h: "\<not> Contains (cmdOutput w) ''sure'' \<and> snd (convertKbitsToBits (cmdOutput w)) \<noteq> None \<and>
      tsdbType fl \<noteq> ''influx'' \<and> dialErr w = None"
    then have "fst (convertKbitsToBits (cmdOutput w)) = 0"
      by (simp add: convertKbitsToBits_error_zero)
    with h show "payloads (fst (netperfTest config fl bin addr label w)) =
        [downloadPrefix fl @ ''.'' @ label @ '' 0 '' @ itoa (unixNow w) @ [CHR 0x0A]]"
      by (simp add: netperfTest_def writeResult_def Let_def split_beta payloads_append
          sendGraphite_payloads graphiteMsg_def zero)
  qed
qed

lemma convert_abc: "convertKbitsToBits ''abc'' = (0, Some ''invalid syntax'')"
  by (simp add: convertKbitsToBits_def parseInt_def isDigit_def)

theorem C1_conversion_error_is_sent_witness:
  "Dial ''tcp'' ''graphite:2003'' \<in>
     set (fst (iperfTest exampleConfig (exampleFlags [] ''300'') ''iperf3'' Download
        ''10.0.0.5'' ''host1'' (exampleAnswers ''abc''))) \<and>
   payloads (fst (iperfTest exampleConfig (exampleFlags [] ''300'') ''iperf3'' Download
      ''10.0.0.5'' ''host1'' (exampleAnswers ''abc''))) =
     [''bandwidth.download.host1 0 1700000000'' @ [CHR 0x0A]] \<and>
   payloads (fst (iperfTest exampleConfig (exampleFlags ''influx'' ''300'') ''iperf3'' Download
      ''10.0.0.5'' ''host1'' (exampleAnswers ''abc''))) =
     [''bandwidth,testType=bandwidth.download,iperfDestination=host1,iperfSource=probe1 iperfResultsBps=0'']"
  using C1_conversion_error_is_sent
      [where w = "exampleAnswers ''abc''" and config = exampleConfig
         and fl = "exampleFlags [] ''300''" and dir = Download and addr = "''10.0.0.5''"
         and label = "''host1''" and bin = "''iperf3''"]
    C1_conversion_error_is_sent
      [where w = "exampleAnswers ''abc''" and config = exampleConfig
         and fl = "exampleFlags ''influx'' ''300''" and dir = Download and addr = "''10.0.0.5''"
         and label = "''host1''" and bin = "''iperf3''"]
  by (simp add: exampleAnswers_def exampleFlags_def exampleConfig_def convert_abc
      itoa_1700000000)

text \<open>The whole list of events of that test, for the reader who retraces lines 365-401.\<close>

lemma iperfTest_abc:
  "iperfTest exampleConfig (exampleFlags [] ''300'') ''iperf3'' Download ''10.0.0.5'' ''host1''
     (exampleAnswers ''abc'') =
   ([RunCmd (''iperf3 -P 1 -t 5 -f k -p 5201 -c 10.0.0.5 | tail -n 3 | head -n1 | awk '{print $7}'' @ [CHR 0x27]),
     Log Error
       ''no valid integer returned from the iperf test, please run with --debug for details'' [],
     Log Info ''Download results for endpoint %s [%s] -> %d bps''
       [ArgS ''10.0.0.5'', ArgS ''host1'', ArgD 0],
     Dial ''tcp'' ''graphite:2003'',
     Fprintf (''bandwidth.download.host1 0 1700000000'' @ [CHR 0x0A]),
     ConnClose],
    Returns ())"
  by (simp add: iperfTest_def writeResult_def sendGraphite_def graphiteMsg_def iperfCommand_def
      exampleAnswers_def exampleFlags_def exampleConfig_def convert_abc itoa_1700000000
      itoa_def digits.simps)

section \<open>Sink failures\<close>

lemma sendInflux_panics:
  "newRequestErr w = None \<Longrightarrow> doResp w = None \<Longrightarrow>
   snd (sendInflux fl w url msg) = Panics nilDereference"
  by (simp add: sendInflux_def Let_def)

text \<open>
  Claim C2 says that no sink failure ends the process. That holds for a failed dial, a
  failed write, a request that cannot be built and a response other than 200:
  \<open>sendGraphite\<close> has no path that panics, and \<open>sendInflux\<close> returns the error. It
  fails for the POST that cannot be delivered: \<open>client.Do\<close> gives no response,
  \<open>sendInflux\<close> logs and then panics on \<open>resp.Body\<close>, and the loop ends with the
  panic after the command of the download test, with no test after it.
\<close>

theorem C2_undelivered_post_panics:
  "(newRequestErr w = None \<and> doResp w = None \<longrightarrow>
      sendInflux fl w url msg =
        ([HttpPost url msg
            [(''Content-Type'', ''application/influx''),
             (''X-CH-Auth-Email'', kentikEmail fl),
             (''X-CH-Auth-API-Token'', kentikToken fl)]] @
         (case doErr w of
            Some err \<Rightarrow>
              [Log Error ''Could not connect to the Influx endpoint -> [%s]'' [ArgS url],
               Log Error ''Verify the Influx server is running and reachable at %s'' [ArgS url]]
          | None \<Rightarrow> []),
         Panics nilDereference)) \<and>
   (tsdbType fl = ''influx'' \<and> \<not> Contains (cmdOutput (env i)) ''error'' \<and>
    newRequestErr (env i) = None \<and> doResp (env i) = None \<longrightarrow>
      snd (iperfEntries config fl bin env i ((addr, name) # rest)) = Panics nilDereference \<and>
      commands (fst (iperfEntries config fl bin env i ((addr, name) # rest))) =
        [iperfCommand bin fl Download addr]) \<and>
   (newRequestErr w \<noteq> None \<longrightarrow>
      sendInflux fl w url msg =
        ([Log Error ''Error constructing URI : %s %s'' [ArgS url, ArgS msg]],
         Returns (newRequestErr w)))"
proof (intro conjI impI)
  assume "newRequestErr w = None \<and> doResp w = None"
  then show "sendInflux fl w url msg =
        ([HttpPost url msg
            [(''Content-Type'', ''application/influx''),
             (''X-CH-Auth-Email'', kentikEmail fl),
             (''X-CH-Auth-API-Token'', kentikToken fl)]] @
         (case doErr w of
            Some err \<Rightarrow>
              [Log Error ''Could not connect to the Influx endpoint -> [%s]'' [ArgS url],
               Log Error ''Verify the Influx server is running and reachable at %s'' [ArgS url]]
          | None \<Rightarrow> []),
         Panics nilDereference)"
    by (simp add: sendInflux_def Let_def)
next
  assume h: "tsdbType fl = ''influx'' \<and> \<not> Contains (cmdOutput (env i)) ''error'' \<and>
    newRequestErr (env i) = None \<and> doResp (env i) = None"
  let ?t = "iperfTest config fl bin Download addr (endpointLabel addr name) (env i)"
  from h have p: "snd ?t = Panics nilDereference"
    by (simp add: iperfTest_def writeResult_def Let_def split_beta sendInflux_panics)
  then have e: "iperfEntries config fl bin env i ((addr, name) # rest) = (fst ?t, Panics nilDereference)"
    by (auto simp: Let_def split: prod.splits outcome.splits)
  show "snd (iperfEntries config fl bin env i ((addr, name) # rest)) = Panics nilDereference"
    by (simp only: e snd_conv)
  show "commands (fst (iperfEntries config fl bin env i ((addr, name) # rest))) =
        [iperfCommand bin fl Download addr]"
    by (simp only: e fst_conv iperfTest_commands)
next
  assume "newRequestErr w \<noteq> None"
  then show "sendInflux fl w url msg =
        ([Log Error ''Error constructing URI : %s %s'' [ArgS url, ArgS msg]],
         Returns (newRequestErr w))"
    by (auto simp: sendInflux_def)
qed

theorem C2_undelivered_post_panics_witness:
  "snd (sendInflux (exampleFlags ''influx'' ''300'') (unreachableAnswers ''12345'')
      ''http://influx.example/write'' ''m'') = Panics nilDereference \<and>
   snd (iperfEntries exampleConfig (exampleFlags ''influx'' ''300'') ''iperf3''
      (\<lambda>n. unreachableAnswers ''12345'') 0 [(''10.0.0.5'', ''host1''), (''10.0.0.6'', [])]) =
     Panics nilDereference \<and>
   commands (fst (iperfEntries exampleConfig (exampleFlags ''influx'' ''300'') ''iperf3''
      (\<lambda>n. unreachableAnswers ''12345'') 0 [(''10.0.0.5'', ''host1''), (''10.0.0.6'', [])])) =
     [iperfCommand ''iperf3'' (exampleFlags ''influx'' ''300'') Download ''10.0.0.5'']"
  using C2_undelivered_post_panics
      [where w = "unreachableAnswers ''12345''" and fl = "exampleFlags ''influx'' ''300''"
         and url = "''http://influx.example/write''" and msg = "''m''"
         and env = "\<lambda>n. unreachableAnswers ''12345''" and i = 0 and config = exampleConfig
         and bin = "''iperf3''" and addr = "''10.0.0.5''" and name = "''host1''"
         and rest = "[(''10.0.0.6'', [])]"]
  by (simp add: unreachableAnswers_def exampleAnswers_def exampleFlags_def)

section \<open>The response of the HTTP sink\<close>

text \<open>
  Claim C8. When \<open>client.Do\<close> gives a response, \<open>sendInflux\<close> returns and never
  panics; it reads the body to its end before it returns, on every path; for a
  status code other than 200, other 2xx codes too, it returns the error
  \<open>unexpected status code: <code>\<close>; for 200 it returns what reading the body
  returned, nil for a body read to its end. The body is closed last.
\<close>

theorem C8_only_200_succeeds:
  "newRequestErr w = None \<and> doResp w = Some resp \<longrightarrow>
     (StatusCode resp \<noteq> 200 \<longrightarrow>
        snd (sendInflux fl w url msg) =
          Returns (Some (''unexpected status code: '' @ itoa (StatusCode resp)))) \<and>
     (StatusCode resp = 200 \<longrightarrow> snd (sendInflux fl w url msg) = Returns (ReadErr resp)) \<and>
     ReadAll \<in> set (fst (sendInflux fl w url msg)) \<and>
     last (fst (sendInflux fl w url msg)) = BodyClose"
  by (simp add: sendInflux_def Let_def)

lemma itoa_500: "itoa 500 = ''500''"
  by (simp add: itoa_def digits.simps)

lemma itoa_204: "itoa 204 = ''204''"
  by (simp add: itoa_def digits.simps)

theorem C8_only_200_succeeds_witness:
  "snd (sendInflux (exampleFlags ''influx'' ''300'')
      ((exampleAnswers ''12345'')\<lparr>doResp := Some (exampleResponse 500)\<rparr>)
      ''http://influx.example/write'' ''m'') =
     Returns (Some ''unexpected status code: 500'') \<and>
   snd (sendInflux (exampleFlags ''influx'' ''300'')
      ((exampleAnswers ''12345'')\<lparr>doResp := Some (exampleResponse 204)\<rparr>)
      ''http://influx.example/write'' ''m'') =
     Returns (Some ''unexpected status code: 204'') \<and>
   snd (sendInflux (exampleFlags ''influx'' ''300'') (exampleAnswers ''12345'')
      ''http://influx.example/write'' ''m'') =
     Returns None \<and>
   ReadAll \<in> set (fst (sendInflux (exampleFlags ''influx'' ''300'')
      ((exampleAnswers ''12345'')\<lparr>doResp := Some (exampleResponse 500)\<rparr>)
      ''http://influx.example/write'' ''m''))"
  using C8_only_200_succeeds
      [where w = "(exampleAnswers ''12345'')\<lparr>doResp := Some (exampleResponse 500)\<rparr>"
         and resp = "exampleResponse 500" and fl = "exampleFlags ''influx'' ''300''"
         and url = "''http://influx.example/write''" and msg = "''m''"]
    C8_only_200_succeeds
      [where w = "(exampleAnswers ''12345'')\<lparr>doResp := Some (exampleResponse 204)\<rparr>"
         and resp = "exampleResponse 204" and fl = "exampleFlags ''influx'' ''300''"
         and url = "''http://influx.example/write''" and msg = "''m''"]
    C8_only_200_succeeds
      [where w = "exampleAnswers ''12345''"
         and resp = "exampleResponse 200" and fl = "exampleFlags ''influx'' ''300''"
         and url = "''http://influx.example/write''" and msg = "''m''"]
  by (simp add: exampleAnswers_def exampleResponse_def itoa_500 itoa_204)

section \<open>Unit normalisation\<close>

lemma wrap64_id: "- (2 ^ 63) \<le> i \<Longrightarrow> i < 2 ^ 63 \<Longrightarrow> wrap64 i = i"
  by (simp add: wrap64_def)

text \<open>
  Claim C5. Whenever the token reads as the integer \<open>k\<close> and \<open>k\<close> is in the 32-bit
  range, \<open>convertKbitsToBits\<close> returns \<open>k * 1000\<close> and no error: the product fits the
  64-bit integer, so nothing is lost.
\<close>

theorem C5_kilobits_times_1000:
  "parseInt token = Some k \<and> - (2 ^ 31) \<le> k \<and> k < 2 ^ 31 \<longrightarrow>
     convertKbitsToBits token = (k * 1000, None)"
proof
  assume h: "parseInt token = Some k \<and> - (2 ^ 31) \<le> k \<and> k < 2 ^ 31"
  then have "- (2 ^ 63) \<le> k * 1000" and "k * 1000 < 2 ^ 63" by simp_all
  then have "wrap64 (k * 1000) = k * 1000" by (rule wrap64_id)
  with h show "convertKbitsToBits token = (k * 1000, None)"
    by (simp add: convertKbitsToBits_def)
qed

lemma parseInt_12345: "parseInt ''12345'' = Some 12345"
  by (simp add: parseInt_def isDigit_def decimal_def digitVal_def)

lemma parseInt_max32: "parseInt ''2147483647'' = Some 2147483647"
  by (simp add: parseInt_def isDigit_def decimal_def digitVal_def)

lemma parseInt_min32: "parseInt ''-2147483648'' = Some (- 2147483648)"
  by (simp add: parseInt_def isDigit_def decimal_def digitVal_def)

theorem C5_kilobits_times_1000_witness:
  "convertKbitsToBits ''12345'' = (12345000, None) \<and>
   convertKbitsToBits ''2147483647'' = (2147483647000, None) \<and>
   convertKbitsToBits ''-2147483648'' = (- 2147483648000, None)"
  using C5_kilobits_times_1000 [of "''12345''" 12345]
    C5_kilobits_times_1000 [of "''2147483647''" 2147483647]
    C5_kilobits_times_1000 [of "''-2147483648''" "- 2147483648"]
  by (simp add: parseInt_12345 parseInt_max32 parseInt_min32)

section \<open>The order of a sweep\<close>




section \<open>The sleep between sweeps\<close>

lemma ParseDuration_error_zero:
  assumes "snd (ParseDuration fm s) \<noteq> None"
  shows "fst (ParseDuration fm s) = 0"
proof -
  have tail: "\<And>neg s1.
      snd (if s1 = ''0'' then (0, None)
           else if s1 = [] then (0, Some invalidDuration)
           else case durationSum fm 0 s1 of
             Inl e \<Rightarrow> (0, Some e)
           | Inr d \<Rightarrow>
               if neg then (- int d, None)
               else if d > 2 ^ 63 - 1 then (0, Some invalidDuration)
               else (int d, None)) \<noteq> None \<Longrightarrow>
      fst (if s1 = ''0'' then (0, None)
           else if s1 = [] then (0, Some invalidDuration)
           else case durationSum fm 0 s1 of
             Inl e \<Rightarrow> (0, Some e)
           | Inr d \<Rightarrow>
               if neg then (- int d, None)
               else if d > 2 ^ 63 - 1 then (0, Some invalidDuration)
               else (int d, None)) = (0::int)"
    by (simp split: sum.splits if_splits)
  from assms show ?thesis
    unfolding ParseDuration_def Let_def split_beta by (rule tail)
qed

lemma durationSum_bad_start:
  "notUnitEnd c \<Longrightarrow> durationSum fm d (c # r) = Inl invalidDuration"
  by (simp add: durationSum.simps durationGroup_def)

lemma notUnitEnd_not_zero: "notUnitEnd c \<Longrightarrow> c \<noteq> CHR ''0''"
  by (simp add: notUnitEnd_def isDigit_def)

lemma ParseDuration_bad_start:
  assumes "notUnitEnd c" and "c \<noteq> CHR ''-''" and "c \<noteq> CHR ''+''"
  shows "ParseDuration fm (c # r) = (0, Some invalidDuration)"
proof -
  from assms(1) have z: "c \<noteq> CHR ''0''" by (rule notUnitEnd_not_zero)
  from assms z show ?thesis
    by (simp add: ParseDuration_def durationSum_bad_start)
qed

lemma notUnitEnd_s: "notUnitEnd CHR ''s''"
  by (simp add: notUnitEnd_def isDigit_def)

lemma iperfSweep_Returns:
  "snd (iperfSweep fm config fl bin env i) = Returns j \<Longrightarrow>
   \<exists>evs. iperfSweep fm config fl bin env i = (evs @ [Sleep (pollInterval fm fl)], Returns j)"
  by (cases "iperfServers config fl bin env i (PerfServers config)")
     (auto simp: iperfSweep_def split: outcome.splits)

lemma netperfSweep_Returns:
  "snd (netperfSweep fm config fl bin env i) = Returns j \<Longrightarrow>
   \<exists>evs. netperfSweep fm config fl bin env i = (evs @ [Sleep (pollInterval fm fl)], Returns j)"
  by (cases "netperfServers config fl bin env i (PerfServers config)")
     (auto simp: netperfSweep_def split: outcome.splits)

lemma iperfLoop_Suc:
  "snd (iperfSweep fm config fl bin env i) = Returns j \<Longrightarrow>
   iperfLoop (Suc n) fm config fl bin env i =
     (fst (iperfSweep fm config fl bin env i) @ fst (iperfLoop n fm config fl bin env j),
      snd (iperfLoop n fm config fl bin env j))"
  by (cases "iperfSweep fm config fl bin env i"; cases "iperfLoop n fm config fl bin env j")
     simp

lemma foldl_digits_ge: "x \<le> foldl (\<lambda>v c. 10 * v + digitVal c) x ds"
proof (induction ds arbitrary: x)
  case Nil
  show ?case by simp
next
  case (Cons c ds)
  have "x \<le> 10 * x + digitVal c" by simp
  also have "\<dots> \<le> foldl (\<lambda>v c. 10 * v + digitVal c) (10 * x + digitVal c) ds"
    by (rule Cons.IH)
  finally show ?case by simp
qed

lemma not_isDigit_s: "\<not> isDigit CHR ''s''"
  by (simp add: isDigit_def)

lemma leadingInt_digits:
  "list_all isDigit ds \<Longrightarrow>
   foldl (\<lambda>v c. 10 * v + digitVal c) x ds \<le> 922337203685477580 \<Longrightarrow>
   leadingInt x (ds @ ''s'') = Some (foldl (\<lambda>v c. 10 * v + digitVal c) x ds, ''s'')"
proof (induction ds arbitrary: x)
  case Nil
  show ?case by (simp add: not_isDigit_s)
next
  case (Cons c ds)
  let ?x' = "10 * x + digitVal c"
  from Cons.prems have b: "foldl (\<lambda>v c. 10 * v + digitVal c) ?x' ds \<le> 922337203685477580"
    by simp
  have "?x' \<le> foldl (\<lambda>v c. 10 * v + digitVal c) ?x' ds" by (rule foldl_digits_ge)
  with b have x': "?x' \<le> 922337203685477580" by simp
  then have x: "x \<le> 922337203685477580" by simp
  from Cons.prems have d: "isDigit c" "list_all isDigit ds" by simp_all
  have ih: "leadingInt ?x' (ds @ ''s'') =
      Some (foldl (\<lambda>v c. 10 * v + digitVal c) ?x' ds, ''s'')"
    using d(2) b by (rule Cons.IH)
  have "leadingInt x ((c # ds) @ ''s'') = leadingInt ?x' (ds @ ''s'')"
    using d(1) x x' by (simp add: Let_def mult.commute)
  with ih show ?case by simp
qed

lemma unitMap_s: "unitMap ''s'' = Some 1000000000"
  by (simp add: unitMap_def)

lemma durationGroup_seconds:
  assumes "ds \<noteq> []" and "list_all isDigit ds" and "decimal ds \<le> 9223372036"
  shows "durationGroup fm (ds @ ''s'') = Inr (decimal ds * 1000000000, [])"
proof -
  from assms(1) obtain c rest where ds: "ds = c # rest" by (cases ds) auto
  with assms(2) have c: "isDigit c" by simp
  then have nu: "\<not> notUnitEnd c" by (simp add: notUnitEnd_def)
  from assms(3) have "foldl (\<lambda>v c. 10 * v + digitVal c) 0 ds \<le> 922337203685477580"
    by (simp add: decimal_def)
  with assms(2) have li: "leadingInt 0 (ds @ ''s'') = Some (decimal ds, ''s'')"
    unfolding decimal_def by (rule leadingInt_digits)
  have len: "length (ds @ ''s'') \<noteq> length ''s''" using assms(1) by simp
  have head: "ds @ ''s'' = c # (rest @ ''s'')" by (simp add: ds)
  show ?thesis
    using assms(3) nu len
    unfolding durationGroup_def li head [symmetric]
    by (simp add: head Let_def notUnitEnd_s unitMap_s li)
qed

lemma ParseDuration_seconds:
  assumes "ds \<noteq> []" and "list_all isDigit ds" and "decimal ds \<le> 9223372036"
  shows "ParseDuration fm (ds @ ''s'') = (int (decimal ds) * 1000000000, None)"
proof -
  from assms(1) obtain c rest where ds: "ds = c # rest" by (cases ds) auto
  with assms(2) have c: "isDigit c" by simp
  then have sign: "c \<noteq> CHR ''-''" "c \<noteq> CHR ''+''" by (auto simp: isDigit_def)
  have g: "durationGroup fm (ds @ ''s'') = Inr (decimal ds * 1000000000, [])"
    using assms by (rule durationGroup_seconds)
  from assms(3) have bound: "decimal ds * 1000000000 \<le> 9223372036000000000" by simp
  have sum: "durationSum fm 0 (ds @ ''s'') = Inr (decimal ds * 1000000000)"
    using bound by (simp add: durationSum.simps [of fm 0 "ds @ ''s''"] g Let_def
        durationSum.simps [of fm _ "[]"])
  have first: "(c # rest) @ ''s'' = c # (rest @ ''s'')" by simp
  show ?thesis
    using sign bound sum unfolding ds ParseDuration_def first
    by (simp add: first)
qed

lemma iperfSweep_sleeps:
  "snd (iperfSweep fm config fl bin env i) = Returns j \<Longrightarrow>
   sleeps (fst (iperfSweep fm config fl bin env i)) = [pollInterval fm fl]"
  using iperfServers_order [of config fl bin env i "PerfServers config"]
  by (cases "iperfServers config fl bin env i (PerfServers config)")
     (auto simp: iperfSweep_def sleeps_append split: outcome.splits)

lemma iperfSweep_graphite_returns:
  "tsdbType fl \<noteq> ''influx'' \<Longrightarrow> \<exists>j. snd (iperfSweep fm config fl bin env i) = Returns j"
  using iperfServers_graphite_returns [of fl config bin env i "PerfServers config"]
  by (cases "iperfServers config fl bin env i (PerfServers config)")
     (auto simp: iperfSweep_def split: outcome.splits)

text \<open>
  Claim C10, as amended. After a sweep that returns, the last event is the sleep, for
  the duration that \<open>time.ParseDuration\<close> gives for the interval with \<open>s\<close> appended,
  its error dropped (lines 443-444 and 520-521), and the next sweep follows. Whenever
  that parse fails, the duration is zero: so it is for the empty interval and for one
  whose first character is not a digit, a point or a sign. An interval of decimal
  digits, up to 9223372036, sleeps that many seconds. What decides is the parse of the
  whole string: an interval that is not a number of seconds is not always a failure
  (see the counterexample below).
\<close>

theorem C10_failed_parse_sleeps_zero:
  "(snd (ParseDuration fm (testInterval fl @ ''s'')) \<noteq> None \<longrightarrow> pollInterval fm fl = 0) \<and>
   (testInterval fl = [] \<longrightarrow>
      snd (ParseDuration fm (testInterval fl @ ''s'')) \<noteq> None \<and> pollInterval fm fl = 0) \<and>
   (testInterval fl = c # r \<and> notUnitEnd c \<and> c \<noteq> CHR ''-'' \<and> c \<noteq> CHR ''+'' \<longrightarrow>
      snd (ParseDuration fm (testInterval fl @ ''s'')) \<noteq> None \<and> pollInterval fm fl = 0) \<and>
   (testInterval fl \<noteq> [] \<and> list_all isDigit (testInterval fl) \<and>
    decimal (testInterval fl) \<le> 9223372036 \<longrightarrow>
      pollInterval fm fl = int (decimal (testInterval fl)) * 1000000000) \<and>
   (snd (iperfSweep fm config fl bin env i) = Returns j \<longrightarrow>
      last (fst (iperfSweep fm config fl bin env i)) = Sleep (pollInterval fm fl) \<and>
      sleeps (fst (iperfSweep fm config fl bin env i)) = [pollInterval fm fl] \<and>
      iperfLoop (Suc n) fm config fl bin env i =
        (fst (iperfSweep fm config fl bin env i) @ fst (iperfLoop n fm config fl bin env j),
         snd (iperfLoop n fm config fl bin env j))) \<and>
   (snd (iperfSweep fm config fl bin env i) = Returns j \<and>
    snd (ParseDuration fm (testInterval fl @ ''s'')) \<noteq> None \<longrightarrow>
      last (fst (iperfSweep fm config fl bin env i)) = Sleep 0) \<and>
   (snd (netperfSweep fm config fl bin env i) = Returns j \<longrightarrow>
      last (fst (netperfSweep fm config fl bin env i)) = Sleep (pollInterval fm fl)) \<and>
   (snd (netperfSweep fm config fl bin env i) = Returns j \<and>
    snd (ParseDuration fm (testInterval fl @ ''s'')) \<noteq> None \<longrightarrow>
      last (fst (netperfSweep fm config fl bin env i)) = Sleep 0)"
proof -
  have zero: "snd (ParseDuration fm (testInterval fl @ ''s'')) \<noteq> None \<Longrightarrow> pollInterval fm fl = 0"
    unfolding pollInterval_def by (rule ParseDuration_error_zero)
  have empty: "testInterval fl = [] \<Longrightarrow>
      snd (ParseDuration fm (testInterval fl @ ''s'')) \<noteq> None"
    using ParseDuration_bad_start [of "CHR ''s''" fm "[]"] by (simp add: notUnitEnd_s)
  have start: "testInterval fl = c # r \<and> notUnitEnd c \<and> c \<noteq> CHR ''-'' \<and> c \<noteq> CHR ''+'' \<Longrightarrow>
      snd (ParseDuration fm (testInterval fl @ ''s'')) \<noteq> None"
    using ParseDuration_bad_start [of c fm "r @ ''s''"] by simp
  have seconds: "testInterval fl \<noteq> [] \<and> list_all isDigit (testInterval fl) \<and>
      decimal (testInterval fl) \<le> 9223372036 \<Longrightarrow>
      pollInterval fm fl = int (decimal (testInterval fl)) * 1000000000"
    unfolding pollInterval_def by (simp add: ParseDuration_seconds)
  have isleep: "snd (iperfSweep fm config fl bin env i) = Returns j \<Longrightarrow>
      last (fst (iperfSweep fm config fl bin env i)) = Sleep (pollInterval fm fl)"
    using iperfSweep_Returns [of fm config fl bin env i j] by auto
  have nsleep: "snd (netperfSweep fm config fl bin env i) = Returns j \<Longrightarrow>
      last (fst (netperfSweep fm config fl bin env i)) = Sleep (pollInterval fm fl)"
    using netperfSweep_Returns [of fm config fl bin env i j] by auto
  show ?thesis
    using zero empty start seconds isleep nsleep
      iperfSweep_sleeps [of fm config fl bin env i j]
      iperfLoop_Suc [of fm config fl bin env i j n]
    by metis
qed

lemma ParseDuration_abc: "ParseDuration fm ''abcs'' = (0, Some invalidDuration)"
  by (rule ParseDuration_bad_start) (simp_all add: notUnitEnd_def isDigit_def)

lemma decimal_300: "decimal ''300'' = 300"
  by (simp add: decimal_def digitVal_def)

theorem C10_failed_parse_sleeps_zero_witness:
  "snd (ParseDuration noFraction (testInterval (exampleFlags [] ''abc'') @ ''s'')) \<noteq> None \<and>
   pollInterval noFraction (exampleFlags [] ''abc'') = 0 \<and>
   pollInterval noFraction (exampleFlags [] []) = 0 \<and>
   list_all isDigit (testInterval (exampleFlags [] ''300'')) \<and>
   pollInterval noFraction (exampleFlags [] ''300'') = 300000000000 \<and>
   snd (iperfSweep noFraction exampleConfig (exampleFlags [] ''abc'') ''iperf3''
      (exampleWorld (exampleAnswers ''12345'') (exampleAnswers ''12345'')) 0) = Returns 4 \<and>
   sleeps (fst (iperfSweep noFraction exampleConfig (exampleFlags [] ''abc'') ''iperf3''
      (exampleWorld (exampleAnswers ''12345'') (exampleAnswers ''12345'')) 0)) = [0] \<and>
   last (fst (iperfSweep noFraction exampleConfig (exampleFlags [] ''abc'') ''iperf3''
      (exampleWorld (exampleAnswers ''12345'') (exampleAnswers ''12345'')) 0)) = Sleep 0"
proof -
  let ?env = "exampleWorld (exampleAnswers ''12345'') (exampleAnswers ''12345'')"
  let ?abc = "exampleFlags [] ''abc''"
  have fails: "snd (ParseDuration noFraction (testInterval ?abc @ ''s'')) \<noteq> None"
    by (simp add: exampleFlags_def ParseDuration_abc)
  have digits: "list_all isDigit (testInterval (exampleFlags [] ''300''))"
    by (simp add: exampleFlags_def isDigit_def)
  have "tsdbType ?abc \<noteq> ''influx''" by (simp add: exampleFlags_def)
  then obtain j where j: "snd (iperfSweep noFraction exampleConfig ?abc ''iperf3'' ?env 0) = Returns j"
    using iperfSweep_graphite_returns by blast
  have four: "j = 4"
    using iperfServers_order [of exampleConfig ?abc "''iperf3''" ?env 0 "PerfServers exampleConfig"] j
    by (cases "iperfServers exampleConfig ?abc ''iperf3'' ?env 0 (PerfServers exampleConfig)")
       (auto simp: iperfSweep_def exampleConfig_def split: outcome.splits)
  note abc = C10_failed_parse_sleeps_zero
      [where fm = noFraction and fl = ?abc and config = exampleConfig and bin = "''iperf3''"
         and env = ?env and i = 0 and j = 4 and c = "CHR ''a''" and r = "''bc''"]
  note none = C10_failed_parse_sleeps_zero [where fm = noFraction and fl = "exampleFlags [] []"]
  note num = C10_failed_parse_sleeps_zero [where fm = noFraction and fl = "exampleFlags [] ''300''"]
  have p0: "pollInterval noFraction ?abc = 0" using abc fails by blast
  have p1: "pollInterval noFraction (exampleFlags [] []) = 0"
    using none by (simp add: exampleFlags_def)
  have p2: "pollInterval noFraction (exampleFlags [] ''300'') = 300000000000"
    using num digits by (simp add: exampleFlags_def decimal_300)
  from abc j four fails have s: "sleeps (fst (iperfSweep noFraction exampleConfig ?abc ''iperf3'' ?env 0)) = [0]"
      and l: "last (fst (iperfSweep noFraction exampleConfig ?abc ''iperf3'' ?env 0)) = Sleep 0"
    by (simp_all add: p0)
  from fails p0 p1 digits p2 j four s l show ?thesis by simp
qed

text \<open>
  Claim C10 as stated fails for the interval \<open>1m30\<close>. It is not a number of seconds, but
  with \<open>s\<close> appended it is the Go duration \<open>1m30s\<close>: the parse succeeds and the sleep is
  90 seconds, not zero.
\<close>

theorem C10_interval_1m30_counterexample:
  "\<not> validSeconds ''1m30'' \<and>
   ParseDuration noFraction (testInterval (exampleFlags [] ''1m30'') @ ''s'') = (90000000000, None) \<and>
   pollInterval noFraction (exampleFlags [] ''1m30'') = 90000000000 \<and>
   pollInterval noFraction (exampleFlags [] ''1m30'') \<noteq> 0"
  by (simp add: validSeconds_def pollInterval_def exampleFlags_def ParseDuration_def
      durationSum.simps durationGroup_def notUnitEnd_def isDigit_def digitVal_def unitMap_def
      Let_def)

end
